theory Spec2Isabelle
  imports Complex_Main
begin

section \<open>Data model (src/types.ts)\<close>

text \<open>
  JavaScript strings are modelled as \<^typ>\<open>string\<close>: one \<^typ>\<open>char\<close> per UTF-16 code
  unit, restricted to the code units below 256 (Latin-1), which covers every string
  literal of the repository. A value of TypeScript type \<open>string | string[]\<close> is an
  \<open>answer\<close>; an optional field is an \<open>option\<close>, \<open>None\<close> standing for \<open>undefined\<close>.
  Field names carry a prefix where the source name (\<open>id\<close>, \<open>type\<close>, \<open>text\<close>, \<open>title\<close>)
  is shared between interfaces or reserved.
\<close>

datatype QuestionType = MultipleChoice | Text | FillBlank | Matching

datatype answer = Single string | Multi "string list"

record Option =
  o_id :: string
  o_text :: string

record Question =
  q_id :: string
  q_type :: QuestionType
  q_text :: string
  q_options :: "Option list option"
  correctAnswer :: answer
  userAnswer :: "answer option"
  isCorrect :: "bool option"

record WorksheetSection =
  s_id :: string
  s_title :: string
  instructions :: string
  questions :: "Question list"

record Worksheet =
  w_id :: string
  w_title :: string
  description :: "string option"
  sections :: "WorksheetSection list"

record StudentInfo =
  name :: string
  timestamp :: string

section \<open>String primitives of the host language\<close>

text \<open>
  \<open>String.prototype.trim\<close> removes the white space and line terminator code units
  from both ends; below 256 these are TAB, LF, VT, FF, CR, SPACE and NBSP.
\<close>

definition isWhiteSpace :: "char \<Rightarrow> bool" where
  "isWhiteSpace c = (of_char c \<in> {9, 10, 11, 12, 13, 32, 160 :: nat})"

definition trim :: "string \<Rightarrow> string" where
  "trim s = rev (dropWhile isWhiteSpace (rev (dropWhile isWhiteSpace s)))"

text \<open>
  \<open>String.prototype.toLowerCase\<close> on code units below 256: the letters A..Z and the
  Latin-1 capitals 192..222 (without the multiplication sign 215) move up by 32,
  every other code unit stays.
\<close>

definition isUpper :: "char \<Rightarrow> bool" where
  "isUpper c = (let n = (of_char c :: nat) in
      (65 \<le> n \<and> n \<le> 90) \<or> (192 \<le> n \<and> n \<le> 222 \<and> n \<noteq> 215))"

definition lowerOf :: "char \<Rightarrow> char" where
  "lowerOf c = char_of (of_char c + 32 :: nat)"

definition toLowerChar :: "char \<Rightarrow> char" where
  "toLowerChar c = (if isUpper c then lowerOf c else c)"

definition toLowerCase :: "string \<Rightarrow> string" where
  "toLowerCase s = map toLowerChar s"

text \<open>
  Case-insensitive equality as the specification words it, stated without
  \<^const>\<open>toLowerCase\<close>: two strings of the same length whose code units agree position by
  position, or are a capital and its small letter.
\<close>

definition char_ci_eq :: "char \<Rightarrow> char \<Rightarrow> bool" where
  "char_ci_eq c d = (c = d \<or> (isUpper c \<and> d = lowerOf c) \<or> (isUpper d \<and> c = lowerOf d))"

definition ci_equal :: "string \<Rightarrow> string \<Rightarrow> bool" where
  "ci_equal x y = list_all2 char_ci_eq x y"

section \<open>Answer evaluation (the Question component)\<close>

text \<open>
  The \<open>switch\<close> of \<open>handleSubmit\<close>: from the question and the two input states of the
  component it computes the answer that is stored and the verdict.
  \<open>selectedOption === question.correctAnswer\<close> is strict equality, so a string never
  equals an array.
\<close>

definition evaluate :: "Question \<Rightarrow> string \<Rightarrow> string \<Rightarrow> answer \<times> bool" where
  "evaluate question selectedOption textAnswer =
     (case q_type question of
        MultipleChoice \<Rightarrow> (Single selectedOption, Single selectedOption = correctAnswer question)
      | Matching \<Rightarrow> (Single selectedOption, Single selectedOption = correctAnswer question)
      | Text \<Rightarrow>
          (let answer = trim textAnswer; userAnswerLower = toLowerCase answer
           in (Single answer,
               (case correctAnswer question of
                  Multi as \<Rightarrow> list_ex (\<lambda>a. userAnswerLower = toLowerCase a) as
                | Single a \<Rightarrow> userAnswerLower = toLowerCase a)))
      | FillBlank \<Rightarrow>
          (let answer = trim textAnswer; userAnswerLower = toLowerCase answer
           in (Single answer,
               (case correctAnswer question of
                  Multi as \<Rightarrow> list_ex (\<lambda>a. userAnswerLower = toLowerCase a) as
                | Single a \<Rightarrow> userAnswerLower = toLowerCase a))))"

section \<open>Session store (src/utils/storage.ts)\<close>

text \<open>
  \<open>sessionStorage\<close> restricted to the four keys the application uses; each field is
  named after the constant holding its key, \<open>None\<close> is a key that is not set.
  Values are stored as JSON text and parsed on reading; on the data model above
  \<open>JSON.parse (JSON.stringify v) = v\<close> (an \<open>undefined\<close> field is dropped and read back as
  missing), so a slot holds the value itself. The index slot holds the number whose
  decimal text is stored, the completed slot the boolean whose text is stored.
\<close>

record Storage =
  WORKSHEET_KEY :: "Worksheet option"
  CURRENT_QUESTION_KEY :: "nat option"
  STUDENT_INFO_KEY :: "StudentInfo option"
  COMPLETED_KEY :: "bool option"

definition emptyStorage :: Storage where
  "emptyStorage = \<lparr>WORKSHEET_KEY = None, CURRENT_QUESTION_KEY = None,
     STUDENT_INFO_KEY = None, COMPLETED_KEY = None\<rparr>"

definition saveWorksheet :: "Worksheet \<Rightarrow> Storage \<Rightarrow> Storage" where
  "saveWorksheet worksheet st = st\<lparr>WORKSHEET_KEY := Some worksheet\<rparr>"

definition getWorksheet :: "Storage \<Rightarrow> Worksheet option" where
  "getWorksheet st = WORKSHEET_KEY st"

definition saveCurrentQuestionIndex :: "nat \<Rightarrow> Storage \<Rightarrow> Storage" where
  "saveCurrentQuestionIndex index st = st\<lparr>CURRENT_QUESTION_KEY := Some index\<rparr>"

definition getCurrentQuestionIndex :: "Storage \<Rightarrow> nat" where
  "getCurrentQuestionIndex st =
     (case CURRENT_QUESTION_KEY st of Some index \<Rightarrow> index | None \<Rightarrow> 0)"

definition saveStudentInfo :: "StudentInfo \<Rightarrow> Storage \<Rightarrow> Storage" where
  "saveStudentInfo info st = st\<lparr>STUDENT_INFO_KEY := Some info\<rparr>"

definition getStudentInfo :: "Storage \<Rightarrow> StudentInfo option" where
  "getStudentInfo st = STUDENT_INFO_KEY st"

definition markAsCompleted :: "bool \<Rightarrow> Storage \<Rightarrow> Storage" where
  "markAsCompleted completed st = st\<lparr>COMPLETED_KEY := Some completed\<rparr>"

definition isCompleted :: "Storage \<Rightarrow> bool" where
  "isCompleted st = (COMPLETED_KEY st = Some True)"

text \<open>
  The callback of the inner \<open>map\<close> of \<open>updateQuestionAnswer\<close>, and the outer one.
\<close>

definition updateQuestion :: "string \<Rightarrow> answer \<Rightarrow> bool \<Rightarrow> Question \<Rightarrow> Question" where
  "updateQuestion questionId answer correct question =
     (if q_id question = questionId
      then question\<lparr>userAnswer := Some answer, isCorrect := Some correct\<rparr>
      else question)"

definition updateSection ::
  "string \<Rightarrow> answer \<Rightarrow> bool \<Rightarrow> WorksheetSection \<Rightarrow> WorksheetSection" where
  "updateSection questionId answer correct section =
     section\<lparr>questions := map (updateQuestion questionId answer correct) (questions section)\<rparr>"

text \<open>
  The flag \<open>updated\<close> is set by the callback whenever it meets a question with the
  given id, so after the two maps it says whether some question of some section has it.
\<close>

definition updateQuestionAnswer :: "string \<Rightarrow> answer \<Rightarrow> bool \<Rightarrow> Storage \<Rightarrow> Storage" where
  "updateQuestionAnswer questionId answer correct st =
     (case getWorksheet st of
        None \<Rightarrow> st
      | Some worksheet \<Rightarrow>
          (let updated = list_ex (\<lambda>section. list_ex (\<lambda>question. q_id question = questionId)
                                    (questions section)) (sections worksheet);
               updatedSections = map (updateSection questionId answer correct) (sections worksheet)
           in if updated then saveWorksheet (worksheet\<lparr>sections := updatedSections\<rparr>) st
              else st))"

definition getCompletedQuestionsCount :: "Storage \<Rightarrow> nat" where
  "getCompletedQuestionsCount st =
     (case getWorksheet st of
        None \<Rightarrow> 0
      | Some worksheet \<Rightarrow>
          foldl (\<lambda>total section.
                   total + length (filter (\<lambda>q. userAnswer q \<noteq> None) (questions section)))
                0 (sections worksheet))"

definition getTotalQuestionsCount :: "Storage \<Rightarrow> nat" where
  "getTotalQuestionsCount st =
     (case getWorksheet st of
        None \<Rightarrow> 0
      | Some worksheet \<Rightarrow>
          foldl (\<lambda>total section. total + length (questions section)) 0 (sections worksheet))"

definition flatQuestions :: "Worksheet \<Rightarrow> Question list" where
  "flatQuestions worksheet = concat (map questions (sections worksheet))"

definition getAllQuestions :: "Storage \<Rightarrow> Question list" where
  "getAllQuestions st =
     (case getWorksheet st of None \<Rightarrow> [] | Some worksheet \<Rightarrow> flatQuestions worksheet)"

definition getCorrectAnswersCount :: "Storage \<Rightarrow> nat" where
  "getCorrectAnswersCount st = length (filter (\<lambda>q. isCorrect q = Some True) (getAllQuestions st))"

definition clearStorage :: "Storage \<Rightarrow> Storage" where
  "clearStorage st = st\<lparr>WORKSHEET_KEY := None, CURRENT_QUESTION_KEY := None,
     STUDENT_INFO_KEY := None, COMPLETED_KEY := None\<rparr>"

section \<open>The Question component: submitting an answer\<close>

text \<open>
  The component state (\<open>useState\<close>). The state variable \<open>isCorrect\<close> of the component is
  \<open>isCorrectState\<close> here, the record field \<open>isCorrect\<close> being the question's.
\<close>

record QuestionState =
  selectedOption :: string
  textAnswer :: string
  hasSubmitted :: bool
  isCorrectState :: bool

definition initialQuestionState :: QuestionState where
  "initialQuestionState =
     \<lparr>selectedOption = [], textAnswer = [], hasSubmitted = False, isCorrectState = False\<rparr>"

definition handleSubmit :: "Question \<Rightarrow> QuestionState \<Rightarrow> Storage \<Rightarrow> QuestionState \<times> Storage" where
  "handleSubmit question ui st =
     (let (answer, correct) = evaluate question (selectedOption ui) (textAnswer ui)
      in (ui\<lparr>isCorrectState := correct, hasSubmitted := True\<rparr>,
          updateQuestionAnswer (q_id question) answer correct st))"

text \<open>The \<open>disabled\<close> attribute of the Submit button; an empty string is falsy.\<close>

definition submitDisabled :: "Question \<Rightarrow> QuestionState \<Rightarrow> bool" where
  "submitDisabled question ui =
     (if q_type question = MultipleChoice \<or> q_type question = Matching
      then selectedOption ui = []
      else trim (textAnswer ui) = [])"

text \<open>
  A click on Submit. The button is rendered only while \<open>hasSubmitted\<close> is false, and a
  disabled button runs no handler: \<open>None\<close> says that \<open>handleSubmit\<close> was not invoked.
\<close>

definition clickSubmit ::
  "Question \<Rightarrow> QuestionState \<Rightarrow> Storage \<Rightarrow> (QuestionState \<times> Storage) option" where
  "clickSubmit question ui st =
     (if hasSubmitted ui \<or> submitDisabled question ui then None
      else Some (handleSubmit question ui st))"

section \<open>The Worksheet page (src/pages/Worksheet.tsx)\<close>

record WorksheetState =
  currentIndex :: nat
  allQuestions :: "Question list"
  completedCount :: nat
  totalCount :: nat
  worksheetState :: "Worksheet option"





datatype Route = HomeRoute | WorksheetRoute | ResultsRoute

definition handleNextQuestion :: "WorksheetState \<Rightarrow> Storage \<Rightarrow> WorksheetState \<times> Storage \<times> Route" where
  "handleNextQuestion ws st =
     (let updatedCompletedCount = getCompletedQuestionsCount st;
          ws1 = ws\<lparr>completedCount := updatedCompletedCount\<rparr>
      in if int (currentIndex ws) < int (length (allQuestions ws)) - 1
         then (let nextIndex = currentIndex ws + 1
               in (ws1\<lparr>currentIndex := nextIndex\<rparr>, saveCurrentQuestionIndex nextIndex st,
                   WorksheetRoute))
         else (ws1, markAsCompleted True st, ResultsRoute))"

definition handleFinish :: "WorksheetState \<Rightarrow> Storage \<Rightarrow> WorksheetState \<times> Storage \<times> Route" where
  "handleFinish ws st = (ws, markAsCompleted True st, ResultsRoute)"

section \<open>Sample questions\<close>

text \<open>
  A fill-in-the-blank question accepting a set of answers, and a text question with
  a single accepted answer.
\<close>

definition es_question :: Question where
  "es_question = \<lparr>q_id = ''q6'', q_type = FillBlank, q_text = ''_______ mi turno.'',
     q_options = None, correctAnswer = Multi [''Es'', ''es''], userAnswer = None,
     isCorrect = None\<rparr>"

definition answer_question :: Question where
  "answer_question = \<lparr>q_id = ''q'', q_type = Text, q_text = ''?'',
     q_options = None, correctAnswer = Single ''Answer'', userAnswer = None,
     isCorrect = None\<rparr>"

section \<open>The upload component (src/components/WorksheetUpload.tsx)\<close>

text \<open>
  The demonstration worksheet of \<open>createSampleWorksheet\<close>. The inverted exclamation
  mark and the accented i are the code units 161 and 237.
\<close>

definition matchingOptions :: "Option list" where
  "matchingOptions =
     [\<lparr>o_id = ''a'', o_text = CHR 0xA1 # ''Oh no, te deslizaste por la serpiente!''\<rparr>,
      \<lparr>o_id = ''b'', o_text = ''Es mi turno.''\<rparr>,
      \<lparr>o_id = ''c'', o_text = ''Voy a tirar el dado.''\<rparr>,
      \<lparr>o_id = ''d'', o_text = ''Te moviste dos espacios.''\<rparr>,
      \<lparr>o_id = ''e'', o_text = ''Sub'' @ CHR 0xED # '' la escalera.''\<rparr>]"

definition matchingQuestion :: "string \<Rightarrow> string \<Rightarrow> string \<Rightarrow> Question" where
  "matchingQuestion i t c =
     \<lparr>q_id = i, q_type = Matching, q_text = t, q_options = Some matchingOptions,
      correctAnswer = Single c, userAnswer = None, isCorrect = None\<rparr>"

definition fillBlankQuestion :: "string \<Rightarrow> string \<Rightarrow> string \<Rightarrow> Question" where
  "fillBlankQuestion i t c =
     \<lparr>q_id = i, q_type = FillBlank, q_text = t, q_options = None,
      correctAnswer = Single c, userAnswer = None, isCorrect = None\<rparr>"

definition createSampleWorksheet :: Worksheet where
  "createSampleWorksheet =
     \<lparr>w_id = ''demo-worksheet'',
      w_title = ''Spanish Game Night Worksheet!'',
      description = Some ''Let's practice our Spanish game phrases!'',
      sections =
        [\<lparr>s_id = ''section-1'',
          s_title = ''Match the English to Spanish'',
          instructions = ''Match the sentences, fill in the blanks, and have fun!'',
          questions =
            [matchingQuestion ''q1'' ''It is my turn.'' ''b'',
             matchingQuestion ''q2'' ''I will throw the dice.'' ''c'',
             matchingQuestion ''q3'' ''You moved two spaces.'' ''d'',
             matchingQuestion ''q4'' ''I climbed the ladder.'' ''e'',
             matchingQuestion ''q5'' ''Oh no, you slid down!'' ''a'']\<rparr>,
         \<lparr>s_id = ''section-2'',
          s_title = ''Fill in the blanks'',
          instructions = ''Fill in the missing Spanish words:'',
          questions =
            [fillBlankQuestion ''q6'' ''_______ mi turno.'' ''Es'',
             fillBlankQuestion ''q7'' ''Voy a _______ el dado.'' ''tirar'',
             fillBlankQuestion ''q8'' ''Te _______ dos espacios.'' ''moviste'',
             fillBlankQuestion ''q9'' (''Sub'' @ CHR 0xED # '' la _______.'') ''escalera'',
             fillBlankQuestion ''q10'' ''_______ no, te deslizaste por la serpiente.'' ''Oh'']\<rparr>]\<rparr>"

definition handleDemoClick :: "Storage \<Rightarrow> Storage" where
  "handleDemoClick st = saveWorksheet createSampleWorksheet (clearStorage st)"

text \<open>
  What \<open>await processWorksheetImage(file)\<close> gives: a thrown exception, or the object
  \<open>{worksheet, error}\<close> with \<open>worksheet\<close> possibly \<open>null\<close> and \<open>error\<close> possibly missing.
\<close>

text \<open>The selected file, as far as the application looks at it: its name and media type.\<close>

record File =
  file_name :: string
  file_type :: string

record IngestResult =
  res_worksheet :: "Worksheet option"
  res_error :: "string option"

datatype IngestOutcome = Threw | Returned IngestResult

record UploadOutcome =
  up_storage :: Storage
  up_isUploading :: bool
  up_navigated :: bool

text \<open>
  \<open>handleSubmit\<close> of the upload form. The remote call is a parameter; it is given the
  selected file and the store as it is at the moment of the call, which it only reads.
  \<open>result.error\<close> is truthy when it is a non-empty string.
\<close>

definition uploadHandleSubmit ::
  "File option \<Rightarrow> (File \<Rightarrow> Storage \<Rightarrow> IngestOutcome) \<Rightarrow> Storage \<Rightarrow> UploadOutcome" where
  "uploadHandleSubmit file processWorksheetImage st =
     (case file of
        None \<Rightarrow> \<lparr>up_storage = st, up_isUploading = False, up_navigated = False\<rparr>
      | Some f \<Rightarrow>
          (let st1 = clearStorage st in
           case processWorksheetImage f st1 of
             Threw \<Rightarrow> \<lparr>up_storage = st1, up_isUploading = False, up_navigated = False\<rparr>
           | Returned result \<Rightarrow>
               (case res_worksheet result of
                  None \<Rightarrow> \<lparr>up_storage = st1, up_isUploading = False, up_navigated = False\<rparr>
                | Some w \<Rightarrow>
                    (if res_error result \<noteq> None \<and> res_error result \<noteq> Some []
                     then \<lparr>up_storage = st1, up_isUploading = False, up_navigated = False\<rparr>
                     else \<lparr>up_storage = saveWorksheet w st1, up_isUploading = True,
                            up_navigated = True\<rparr>))))"

section \<open>Identifier backfill of the ingestion function (process-worksheet/index.ts)\<close>

text \<open>
  The parsed reply of the remote model. It is the result of \<open>JSON.parse\<close> and is read
  here at the fields of the client's types. The function spreads every field of the
  reply's worksheet, sections and questions into the objects it builds and overwrites
  \<open>id\<close>, so a question of the reply passes on its answer fields, if it carries any.
  An identifier that the reply carries for a worksheet, section or question is
  overwritten, so it is left out; an option may come with or without one. A reply
  whose \<open>sections\<close> or whose \<open>questions\<close> are not arrays makes the function throw,
  and the ingestion fails.
\<close>

record RawOption =
  raw_o_id :: "string option"
  raw_o_text :: string

record RawQuestion =
  raw_q_type :: QuestionType
  raw_q_text :: string
  raw_q_options :: "RawOption list option"
  raw_correctAnswer :: answer
  raw_userAnswer :: "answer option"
  raw_isCorrect :: "bool option"

record RawSection =
  raw_s_title :: string
  raw_instructions :: string
  raw_questions :: "RawQuestion list"

record RawWorksheet =
  raw_title :: string
  raw_description :: "string option"
  raw_sections :: "RawSection list"

text \<open>
  \<open>String.fromCharCode\<close> gives the string of one code unit; \<^const>\<open>char_of\<close> reduces
  modulo 256, which is the code unit itself as long as it is below 256.
\<close>

definition fromCharCode :: "nat \<Rightarrow> string" where
  "fromCharCode n = [char_of n]"

text \<open>\<open>opt.id || String.fromCharCode(97 + index)\<close>: a missing or empty id is falsy.\<close>

definition processOption :: "RawOption \<Rightarrow> nat \<Rightarrow> Option" where
  "processOption opt index =
     \<lparr>o_id = (case raw_o_id opt of
                None \<Rightarrow> fromCharCode (97 + index)
              | Some i \<Rightarrow> if i = [] then fromCharCode (97 + index) else i),
      o_text = raw_o_text opt\<rparr>"

definition processOptions :: "RawOption list \<Rightarrow> Option list" where
  "processOptions opts = map (\<lambda>(opt, index). processOption opt index) (zip opts [0 ..< length opts])"

text \<open>
  \<open>uuidv4()\<close> is a source of identifiers outside the program: \<open>gen k\<close> is the value of its
  \<open>k\<close>-th call, and the number of calls made so far is threaded through. An object
  literal evaluates its properties in order, so a section draws its id before its
  questions do, and the worksheet draws first.
\<close>

fun processQuestions :: "(nat \<Rightarrow> string) \<Rightarrow> nat \<Rightarrow> RawQuestion list \<Rightarrow> Question list \<times> nat" where
  "processQuestions gen n [] = ([], n)"
| "processQuestions gen n (question # rest) =
     (let i = gen n;
          q = \<lparr>q_id = i, q_type = raw_q_type question, q_text = raw_q_text question,
               q_options = map_option processOptions (raw_q_options question),
               correctAnswer = raw_correctAnswer question,
               userAnswer = raw_userAnswer question, isCorrect = raw_isCorrect question\<rparr>;
          (qs, n') = processQuestions gen (Suc n) rest
      in (q # qs, n'))"

fun processSections :: "(nat \<Rightarrow> string) \<Rightarrow> nat \<Rightarrow> RawSection list \<Rightarrow> WorksheetSection list \<times> nat" where
  "processSections gen n [] = ([], n)"
| "processSections gen n (section # rest) =
     (let i = gen n;
          (qs, n1) = processQuestions gen (Suc n) (raw_questions section);
          s = \<lparr>s_id = i, s_title = raw_s_title section,
               instructions = raw_instructions section, questions = qs\<rparr>;
          (ss, n2) = processSections gen n1 rest
      in (s # ss, n2))"

definition processedWorksheet :: "(nat \<Rightarrow> string) \<Rightarrow> RawWorksheet \<Rightarrow> Worksheet" where
  "processedWorksheet gen parsedWorksheet =
     (let i = gen 0;
          (ss, n) = processSections gen 1 (raw_sections parsedWorksheet)
      in \<lparr>w_id = i, w_title = raw_title parsedWorksheet,
          description = raw_description parsedWorksheet, sections = ss\<rparr>)"

text \<open>A successful upload of a processed reply, read back from the store.\<close>

definition ingestReply :: "(nat \<Rightarrow> string) \<Rightarrow> RawWorksheet \<Rightarrow> File \<Rightarrow> Storage \<Rightarrow> IngestOutcome" where
  "ingestReply gen parsedWorksheet f st =
     Returned \<lparr>res_worksheet = Some (processedWorksheet gen parsedWorksheet), res_error = None\<rparr>"

section \<open>Score and report (the PDF service and the Results page)\<close>

text \<open>
  The numbers of the host language that the score computation can produce: \<open>NaN\<close>,
  \<open>Infinity\<close> and the finite doubles, a finite double being kept as the rational it
  denotes. \<open>toDouble x\<close> is the double nearest to the rational \<open>x\<close>, a tie going to
  the even significand: with \<open>2 ^ e \<le> |x| < 2 ^ (e + 1)\<close> the doubles around \<open>x\<close>
  are the multiples of \<open>2 ^ (e - 52)\<close>. The exponent range is not modelled (no
  overflow, no subnormal numbers): a count is the length of an array, below \<open>2 ^ 32\<close>,
  so a count is a double itself, and the quotients of counts and their products with
  100 lie far inside the range.
\<close>

fun bitLength :: "nat \<Rightarrow> nat" where
  "bitLength n = (if n = 0 then 0 else Suc (bitLength (n div 2)))"

definition exponentOf :: "rat \<Rightarrow> int" where
  "exponentOf x =
     (let (a, b) = quotient_of x;
          e0 = int (bitLength (nat a)) - int (bitLength (nat b))
      in if 2 powi e0 \<le> x then e0 else e0 - 1)"

definition roundHalfEven :: "rat \<Rightarrow> int" where
  "roundHalfEven m =
     (let f = \<lfloor>m\<rfloor>; d = m - of_int f
      in if d < 1 / 2 then f else if 1 / 2 < d then f + 1 else if even f then f else f + 1)"

definition toDouble :: "rat \<Rightarrow> rat" where
  "toDouble x =
     (if x = 0 then 0
      else (let u = 2 powi (exponentOf \<bar>x\<bar> - 52)
            in sgn x * of_int (roundHalfEven (\<bar>x\<bar> / u)) * u))"

text \<open>
  Division of two counts and multiplication by a positive double, each rounded once.
  A quotient with divisor zero is \<open>NaN\<close> for \<open>0 / 0\<close> and \<open>Infinity\<close> otherwise, and
  both pass through the multiplication and through \<open>Math.round\<close>, which gives the
  integer nearest to a double, a tie going up.
\<close>

datatype js_number = NaN | Infinity | Num rat

definition js_div :: "nat \<Rightarrow> nat \<Rightarrow> js_number" where
  "js_div a b =
     (if b = 0 then (if a = 0 then NaN else Infinity)
      else Num (toDouble (rat_of_nat a / rat_of_nat b)))"

definition js_times :: "js_number \<Rightarrow> rat \<Rightarrow> js_number" where
  "js_times x k =
     (case x of NaN \<Rightarrow> NaN | Infinity \<Rightarrow> Infinity | Num r \<Rightarrow> Num (toDouble (r * k)))"

definition Math_round :: "js_number \<Rightarrow> js_number" where
  "Math_round x =
     (case x of NaN \<Rightarrow> NaN | Infinity \<Rightarrow> Infinity | Num r \<Rightarrow> Num (of_int \<lfloor>r + 1 / 2\<rfloor>))"

definition totalQuestionsOf :: "Worksheet \<Rightarrow> nat" where
  "totalQuestionsOf worksheet =
     foldl (\<lambda>sum section. sum + length (questions section)) 0 (sections worksheet)"

definition correctAnswersOf :: "Worksheet \<Rightarrow> nat" where
  "correctAnswersOf worksheet =
     foldl (\<lambda>sum section.
              sum + length (filter (\<lambda>q. isCorrect q = Some True) (questions section)))
           0 (sections worksheet)"

definition scorePercent :: "Worksheet \<Rightarrow> js_number" where
  "scorePercent worksheet =
     Math_round (js_times (js_div (correctAnswersOf worksheet) (totalQuestionsOf worksheet)) 100)"

text \<open>
  The Results page. Its state variables \<open>worksheet\<close>, \<open>studentInfo\<close>, \<open>totalCount\<close>
  and \<open>scorePercent\<close> are the fields \<open>resultsWorksheet\<close>, \<open>resultsStudentInfo\<close>,
  \<open>resultsTotalCount\<close> and \<open>scorePercentState\<close>. The effect returns early, with a
  redirect, when the session is not completed or the worksheet or the student is
  missing; otherwise it computes the score from the counts of the store.
\<close>

record ResultsState =
  resultsWorksheet :: "Worksheet option"
  resultsStudentInfo :: "StudentInfo option"
  correctCount :: nat
  resultsTotalCount :: nat
  scorePercentState :: js_number

definition mountResults :: "Storage \<Rightarrow> ResultsState" where
  "mountResults st =
     \<lparr>resultsWorksheet = getWorksheet st, resultsStudentInfo = getStudentInfo st,
      correctCount = 0, resultsTotalCount = 0, scorePercentState = Num 0\<rparr>"

definition resultsEffect :: "ResultsState \<Rightarrow> Storage \<Rightarrow> ResultsState \<times> Route option" where
  "resultsEffect rs st =
     (if \<not> isCompleted st then (rs, Some WorksheetRoute)
      else if resultsWorksheet rs = None \<or> resultsStudentInfo rs = None then (rs, Some HomeRoute)
      else (let correct = getCorrectAnswersCount st;
                totalQ = getTotalQuestionsCount st;
                percent = Math_round (js_times (js_div correct totalQ) 100)
            in (rs\<lparr>correctCount := correct, resultsTotalCount := totalQ,
                    scorePercentState := percent\<rparr>, None)))"

definition openResults :: "Storage \<Rightarrow> ResultsState \<times> Route option" where
  "openResults st = resultsEffect (mountResults st) st"

text \<open>Conversion to text inside a template literal.\<close>

fun showNat :: "nat \<Rightarrow> string" where
  "showNat n = (if n < 10 then [char_of (48 + n)] else showNat (n div 10) @ [char_of (48 + n mod 10)])"

definition showNumber :: "js_number \<Rightarrow> string" where
  "showNumber x =
     (case x of
        NaN \<Rightarrow> ''NaN''
      | Infinity \<Rightarrow> ''Infinity''
      | Num r \<Rightarrow> (if r < 0 then ''-'' @ showNat (nat \<lfloor>- r\<rfloor>) else showNat (nat \<lfloor>r\<rfloor>)))"

fun join :: "string \<Rightarrow> string list \<Rightarrow> string" where
  "join sep [] = []"
| "join sep [x] = x"
| "join sep (x # y # ys) = x @ sep @ join sep (y # ys)"

text \<open>
  \<open>question.userAnswer || "Not answered"\<close>: a missing answer and the empty string are
  falsy, an array is truthy and is converted by joining its elements with commas.
\<close>

definition userAnswerOrDefault :: "Question \<Rightarrow> string" where
  "userAnswerOrDefault question =
     (case userAnswer question of
        None \<Rightarrow> ''Not answered''
      | Some (Single s) \<Rightarrow> if s = [] then ''Not answered'' else s
      | Some (Multi xs) \<Rightarrow> join '','' xs)"

definition correctAnswerText :: "Question \<Rightarrow> string" where
  "correctAnswerText question =
     (case correctAnswer question of Multi xs \<Rightarrow> join '', '' xs | Single s \<Rightarrow> s)"

text \<open>
  The element built for one question: the numbered prompt, the answer line with its
  colour, and the line with the correct answer, which is appended in the \<open>else\<close>
  branch of \<open>if (question.isCorrect)\<close>; a missing \<open>isCorrect\<close> is falsy.
\<close>

record QuestionElement =
  questionText :: string
  userAnswerHtml :: string
  userAnswerColor :: string
  correctAnswerElement :: "string option"

definition renderQuestion :: "Question \<Rightarrow> nat \<Rightarrow> QuestionElement" where
  "renderQuestion question index =
     \<lparr>questionText = showNat (index + 1) @ ''. '' @ q_text question,
      userAnswerHtml =
        ''<p><strong>Your answer:</strong> '' @ userAnswerOrDefault question @ ''</p>'',
      userAnswerColor = (if isCorrect question = Some True then ''#10b981'' else ''#ef4444''),
      correctAnswerElement =
        (if isCorrect question = Some True then None
         else Some (''<strong>Correct answer:</strong> '' @ correctAnswerText question))\<rparr>"

record SectionElement =
  sectionTitle :: string
  sectionInstructions :: string
  questionElements :: "QuestionElement list"

definition renderSection :: "WorksheetSection \<Rightarrow> SectionElement" where
  "renderSection section =
     \<lparr>sectionTitle = s_title section,
      sectionInstructions = instructions section,
      questionElements =
        map (\<lambda>(question, index). renderQuestion question index)
            (zip (questions section) [0 ..< length (questions section)])\<rparr>"

record ReportContainer =
  titleElement :: string
  studentElement :: string
  scoreElement :: string
  sectionElements :: "SectionElement list"

text \<open>
  The container that \<open>generatePDF\<close> builds before it is rasterised and cut into pages.
  The title is its text; the student element is its two paragraphs and the score
  element the content of its paragraph, without the enclosing box and the layout white
  space of the template.
\<close>

definition generatePDF :: "Worksheet \<Rightarrow> StudentInfo \<Rightarrow> ReportContainer" where
  "generatePDF worksheet studentInfo =
     \<lparr>titleElement = w_title worksheet,
      studentElement =
        ''<p><strong>Student:</strong> '' @ name studentInfo @ ''</p>'' @
        ''<p><strong>Completed:</strong> '' @ timestamp studentInfo @ ''</p>'',
      scoreElement =
        ''<strong>Score:</strong> '' @ showNat (correctAnswersOf worksheet) @ ''/'' @
        showNat (totalQuestionsOf worksheet) @ '' ('' @ showNumber (scorePercent worksheet) @ ''%)'',
      sectionElements = map renderSection (sections worksheet)\<rparr>"

section \<open>Sample store\<close>

text \<open>The store after a click on the demonstration button in a new session.\<close>

definition demoStore :: Storage where
  "demoStore = handleDemoClick emptyStorage"

section \<open>Frame predicates\<close>

text \<open>
  Two questions that differ at most in \<open>userAnswer\<close> and \<open>isCorrect\<close>; two sections
  that differ at most in their questions; two worksheets that differ at most in their
  sections.
\<close>

definition sameButAnswer :: "Question \<Rightarrow> Question \<Rightarrow> bool" where
  "sameButAnswer q q' = (q' = q\<lparr>userAnswer := userAnswer q', isCorrect := isCorrect q'\<rparr>)"

definition sameButQuestions :: "WorksheetSection \<Rightarrow> WorksheetSection \<Rightarrow> bool" where
  "sameButQuestions s s' = (s' = s\<lparr>questions := questions s'\<rparr>)"

definition sameButSections :: "Worksheet \<Rightarrow> Worksheet \<Rightarrow> bool" where
  "sameButSections w w' = (w' = w\<lparr>sections := sections w'\<rparr>)"

section \<open>Reachable stores\<close>

text \<open>
  The invariant of the data model: in the stored worksheet every question has
  \<open>userAnswer\<close> and \<open>isCorrect\<close> both missing or both present.
\<close>

definition answeredConsistently :: "Question \<Rightarrow> bool" where
  "answeredConsistently q = ((userAnswer q = None) = (isCorrect q = None))"

definition answerInvariant :: "Storage \<Rightarrow> bool" where
  "answerInvariant st =
     (case getWorksheet st of
        None \<Rightarrow> True
      | Some w \<Rightarrow> list_all answeredConsistently (flatQuestions w))"

text \<open>
  The stores a session can be in: it starts empty, and every handler of the
  application that writes the store is a step: the demonstration button, the upload
  form (whose remote call throws, returns no worksheet, or returns the worksheet that
  the ingestion function made from a reply), the student form, a click on Submit, any
  call of \<open>updateQuestionAnswer\<close>, Next, Finish, and Start New of the Results page.
  The parameter \<open>replies\<close> says which parsed replies the remote model can give;
  \<open>anyReply\<close> puts no restriction on them. A reply is consistent when each of its
  questions carries both answer fields or neither.
\<close>

definition handleStartNew :: "Storage \<Rightarrow> Storage" where
  "handleStartNew st = clearStorage st"

definition anyReply :: "RawWorksheet \<Rightarrow> bool" where
  "anyReply parsed = True"

definition replyConsistent :: "RawWorksheet \<Rightarrow> bool" where
  "replyConsistent parsed =
     list_all (\<lambda>s. list_all (\<lambda>q. (raw_userAnswer q = None) = (raw_isCorrect q = None))
                            (raw_questions s))
              (raw_sections parsed)"

inductive reachable :: "(RawWorksheet \<Rightarrow> bool) \<Rightarrow> Storage \<Rightarrow> bool"
  for replies :: "RawWorksheet \<Rightarrow> bool" where
  start: "reachable replies emptyStorage"
| demo: "reachable replies st \<Longrightarrow> reachable replies (handleDemoClick st)"
| upload_threw:
    "reachable replies st \<Longrightarrow>
     reachable replies (up_storage (uploadHandleSubmit file (\<lambda>f s. Threw) st))"
| upload_returned_null:
    "reachable replies st \<Longrightarrow>
     reachable replies (up_storage (uploadHandleSubmit file
        (\<lambda>f s. Returned \<lparr>res_worksheet = None, res_error = e\<rparr>) st))"
| upload_returned:
    "reachable replies st \<Longrightarrow> replies parsed \<Longrightarrow>
     reachable replies (up_storage (uploadHandleSubmit file
        (\<lambda>f s. Returned \<lparr>res_worksheet = Some (processedWorksheet gen parsed), res_error = e\<rparr>) st))"
| student: "reachable replies st \<Longrightarrow> reachable replies (saveStudentInfo info st)"
| submit:
    "reachable replies st \<Longrightarrow> clickSubmit question ui st = Some (ui', st') \<Longrightarrow>
     reachable replies st'"
| update:
    "reachable replies st \<Longrightarrow>
     reachable replies (updateQuestionAnswer questionId answer correct st)"
| next_question:
    "reachable replies st \<Longrightarrow> reachable replies (fst (snd (handleNextQuestion ws st)))"
| finish: "reachable replies st \<Longrightarrow> reachable replies (fst (snd (handleFinish ws st)))"
| start_new: "reachable replies st \<Longrightarrow> reachable replies (handleStartNew st)"

section \<open>What the backfill is to achieve\<close>

text \<open>
  The identifiers of a worksheet, its sections and its questions, in document order;
  the small letters; the id that follows the letter \<open>a\<close> at a given distance: the
  string of the one code unit that many places after \<open>a\<close>; and the relations between
  the parsed reply and the worksheet made from it: same content position by position,
  an option without an id (missing or empty) getting the id that follows \<open>a\<close> at the
  distance of its position. The code unit of \<open>a\<close> is 97, so up to position 158 the
  code unit of that id is below 256, the range of the strings modelled here; the
  relation says which id it is for these positions.
\<close>

definition worksheetIds :: "Worksheet \<Rightarrow> string list" where
  "worksheetIds w = w_id w # concat (map (\<lambda>s. s_id s # map q_id (questions s)) (sections w))"

definition optionIds :: "Worksheet \<Rightarrow> string list" where
  "optionIds w =
     concat (map (\<lambda>q. case q_options q of None \<Rightarrow> [] | Some os \<Rightarrow> map o_id os) (flatQuestions w))"

definition alphabet :: string where
  "alphabet = ''abcdefghijklmnopqrstuvwxyz''"

definition lacksId :: "RawOption \<Rightarrow> bool" where
  "lacksId ro = (raw_o_id ro = None \<or> raw_o_id ro = Some [])"

definition sequentialId :: "nat \<Rightarrow> string" where
  "sequentialId i = [char_of (of_char (CHR ''a'') + i)]"

definition optionFrom :: "nat \<Rightarrow> RawOption \<Rightarrow> Option \<Rightarrow> bool" where
  "optionFrom i ro opt =
     (o_text opt = raw_o_text ro \<and> o_id opt \<noteq> [] \<and>
      (if lacksId ro then (i < 159 \<longrightarrow> o_id opt = sequentialId i)
       else raw_o_id ro = Some (o_id opt)))"

definition optionsFrom :: "RawOption list \<Rightarrow> Option list \<Rightarrow> bool" where
  "optionsFrom ros os =
     (length os = length ros \<and> (\<forall>i < length ros. optionFrom i (ros ! i) (os ! i)))"

definition questionFrom :: "RawQuestion \<Rightarrow> Question \<Rightarrow> bool" where
  "questionFrom rq q =
     (q_type q = raw_q_type rq \<and> q_text q = raw_q_text rq \<and>
      correctAnswer q = raw_correctAnswer rq \<and>
      userAnswer q = raw_userAnswer rq \<and> isCorrect q = raw_isCorrect rq \<and>
      rel_option optionsFrom (raw_q_options rq) (q_options q))"

definition sectionFrom :: "RawSection \<Rightarrow> WorksheetSection \<Rightarrow> bool" where
  "sectionFrom rs s =
     (s_title s = raw_s_title rs \<and> instructions s = raw_instructions rs \<and>
      list_all2 questionFrom (raw_questions rs) (questions s))"

definition worksheetFrom :: "RawWorksheet \<Rightarrow> Worksheet \<Rightarrow> bool" where
  "worksheetFrom rw w =
     (w_title w = raw_title rw \<and> description w = raw_description rw \<and>
      list_all2 sectionFrom (raw_sections rw) (sections w))"

text \<open>
  A sample identifier source; a sample reply with two options lacking their id; a
  reply whose question has twenty-seven options without ids; and a reply whose question
  carries \<open>isCorrect\<close> without \<open>userAnswer\<close>.
\<close>

definition sampleGen :: "nat \<Rightarrow> string" where
  "sampleGen k = replicate (Suc k) (CHR ''u'')"

definition sampleReply :: RawWorksheet where
  "sampleReply =
     \<lparr>raw_title = ''Quiz'', raw_description = None,
      raw_sections =
        [\<lparr>raw_s_title = ''Part 1'', raw_instructions = ''Choose.'',
          raw_questions =
            [\<lparr>raw_q_type = MultipleChoice, raw_q_text = ''2 + 2 = ?'',
              raw_q_options = Some [\<lparr>raw_o_id = None, raw_o_text = ''3''\<rparr>,
                                    \<lparr>raw_o_id = Some ''B'', raw_o_text = ''4''\<rparr>,
                                    \<lparr>raw_o_id = Some [], raw_o_text = ''5''\<rparr>],
              raw_correctAnswer = Single ''B'', raw_userAnswer = None, raw_isCorrect = None\<rparr>,
             \<lparr>raw_q_type = Text, raw_q_text = ''Capital of France?'',
              raw_q_options = None, raw_correctAnswer = Multi [''Paris'', ''paris''],
              raw_userAnswer = None, raw_isCorrect = None\<rparr>]\<rparr>]\<rparr>"

definition manyOptions :: "RawOption list" where
  "manyOptions = replicate 27 \<lparr>raw_o_id = None, raw_o_text = ''x''\<rparr>"

definition manyOptionsReply :: RawWorksheet where
  "manyOptionsReply =
     \<lparr>raw_title = ''Quiz'', raw_description = None,
      raw_sections =
        [\<lparr>raw_s_title = ''Part 1'', raw_instructions = ''Choose.'',
          raw_questions =
            [\<lparr>raw_q_type = MultipleChoice, raw_q_text = ''Which one?'',
              raw_q_options = Some manyOptions,
              raw_correctAnswer = Single ''a'', raw_userAnswer = None,
              raw_isCorrect = None\<rparr>]\<rparr>]\<rparr>"

definition markedReply :: RawWorksheet where
  "markedReply =
     \<lparr>raw_title = ''Quiz'', raw_description = None,
      raw_sections =
        [\<lparr>raw_s_title = ''Part 1'', raw_instructions = ''Answer.'',
          raw_questions =
            [\<lparr>raw_q_type = Text, raw_q_text = ''Capital of France?'',
              raw_q_options = None, raw_correctAnswer = Single ''Paris'',
              raw_userAnswer = None, raw_isCorrect = Some True\<rparr>]\<rparr>]\<rparr>"

section \<open>Sample states of the interface\<close>

text \<open>
  The first demonstration question; the Question component with option \<open>b\<close> selected;
  a failed ingestion in the words of the upload handler (the call threw, or returned
  an error text or no worksheet); and a session in progress.
\<close>

definition firstQuestion :: Question where
  "firstQuestion = matchingQuestion ''q1'' ''It is my turn.'' ''b''"

definition selectedB :: QuestionState where
  "selectedB = initialQuestionState\<lparr>selectedOption := ''b''\<rparr>"

definition ingestionFailed :: "IngestOutcome \<Rightarrow> bool" where
  "ingestionFailed outcome =
     (case outcome of
        Threw \<Rightarrow> True
      | Returned result \<Rightarrow>
          (res_error result \<noteq> None \<and> res_error result \<noteq> Some []) \<or> res_worksheet result = None)"

definition sessionInProgress :: Storage where
  "sessionInProgress =
     saveCurrentQuestionIndex 3
       (saveStudentInfo \<lparr>name = ''Ana'', timestamp = ''1/2/2025 at 10:30 AM''\<rparr>
          (markAsCompleted True demoStore))"

definition pngFile :: File where
  "pngFile = \<lparr>file_name = ''sheet.png'', file_type = ''image/png''\<rparr>"

section \<open>The early-finish affordance\<close>













section \<open>Sample reports\<close>

text \<open>
  A worksheet without questions, a student, and the sixth demonstration question as
  it is before and after a wrong answer.
\<close>

definition emptyWorksheet :: Worksheet where
  "emptyWorksheet = \<lparr>w_id = ''w0'', w_title = ''Empty'', description = None, sections = []\<rparr>"

definition sampleStudent :: StudentInfo where
  "sampleStudent = \<lparr>name = ''Ana'', timestamp = ''1/2/2025 at 10:30 AM''\<rparr>"

definition emptyCompleted :: Storage where
  "emptyCompleted =
     markAsCompleted True (saveStudentInfo sampleStudent (saveWorksheet emptyWorksheet emptyStorage))"

definition sixthQuestion :: Question where
  "sixthQuestion = fillBlankQuestion ''q6'' ''_______ mi turno.'' ''Es''"

definition sixthAnsweredNo :: Question where
  "sixthAnsweredNo = updateQuestion ''q6'' (Single ''no'') False sixthQuestion"

definition sixthAnsweredES :: Question where
  "sixthAnsweredES = updateQuestion ''q6'' (Single ''ES'') True sixthQuestion"

text \<open>A worksheet with forty questions, twenty-three of them answered correctly.\<close>

definition twentyThreeOfForty :: Worksheet where
  "twentyThreeOfForty =
     \<lparr>w_id = ''w40'', w_title = ''Forty'', description = None,
      sections =
        [\<lparr>s_id = ''s1'', s_title = ''All'', instructions = ''Answer.'',
          questions =
            replicate 23 (sixthAnsweredES)
            @ replicate 17 sixthQuestion\<rparr>]\<rparr>"

section \<open>Properties of the string primitives\<close>

lemma of_char_lowerOf: "isUpper c \<Longrightarrow> (of_char (lowerOf c) :: nat) = of_char c + 32"
  unfolding isUpper_def lowerOf_def Let_def by auto

lemma not_upper_lowerOf: "isUpper c \<Longrightarrow> \<not> isUpper (lowerOf c)"
  using of_char_lowerOf[of c] unfolding isUpper_def Let_def by auto

lemma lowerOf_inj: "isUpper c \<Longrightarrow> isUpper d \<Longrightarrow> lowerOf c = lowerOf d \<Longrightarrow> c = d"
  using of_char_lowerOf[of c] of_char_lowerOf[of d]
  by (metis add_right_cancel of_char_eq_iff)

lemma toLowerChar_eq_iff: "toLowerChar c = toLowerChar d \<longleftrightarrow> char_ci_eq c d"
  unfolding toLowerChar_def char_ci_eq_def
  using not_upper_lowerOf lowerOf_inj by auto

lemma toLowerCase_eq_iff: "toLowerCase x = toLowerCase y \<longleftrightarrow> ci_equal x y"
proof (induction x arbitrary: y)
  case Nil
  show ?case by (simp add: toLowerCase_def ci_equal_def)
next
  case (Cons c x)
  show ?case
  proof (cases y)
    case Nil
    then show ?thesis by (simp add: toLowerCase_def ci_equal_def)
  next
    case (Cons d y')
    with Cons.IH[of y'] show ?thesis
      by (simp add: toLowerCase_def ci_equal_def toLowerChar_eq_iff)
  qed
qed

lemma rev_dropWhile_rev_split:
  "xs = rev (dropWhile P (rev xs)) @ rev (takeWhile P (rev xs))"
  by (metis rev_append rev_rev_ident takeWhile_dropWhile_id)

lemma trim_decompose:
  "\<exists>pre post. s = pre @ trim s @ post \<and> list_all isWhiteSpace pre \<and> list_all isWhiteSpace post"
proof -
  let ?t = "dropWhile isWhiteSpace s"
  have a: "s = takeWhile isWhiteSpace s @ ?t" by simp
  have c: "?t = trim s @ rev (takeWhile isWhiteSpace (rev ?t))"
    unfolding trim_def by (rule rev_dropWhile_rev_split)
  have "s = takeWhile isWhiteSpace s @ trim s @ rev (takeWhile isWhiteSpace (rev ?t))"
    using a c by metis
  moreover have "list_all isWhiteSpace (takeWhile isWhiteSpace s)"
    by (simp add: list_all_iff) (meson set_takeWhileD)
  moreover have "list_all isWhiteSpace (rev (takeWhile isWhiteSpace (rev ?t)))"
    by (simp add: list_all_iff) (meson set_takeWhileD)
  ultimately show ?thesis by blast
qed

lemma trim_ends:
  "trim s \<noteq> [] \<Longrightarrow> \<not> isWhiteSpace (hd (trim s)) \<and> \<not> isWhiteSpace (last (trim s))"
proof -
  assume ne: "trim s \<noteq> []"
  let ?t = "dropWhile isWhiteSpace s"
  let ?u = "dropWhile isWhiteSpace (rev ?t)"
  from ne have u: "?u \<noteq> []" by (simp add: trim_def)
  then have "\<not> isWhiteSpace (hd ?u)" by (rule hd_dropWhile)
  then have l: "\<not> isWhiteSpace (last (trim s))"
    using u by (simp add: trim_def last_rev)
  from u have "rev ?t \<noteq> []" by (metis dropWhile.simps(1))
  then have t: "?t \<noteq> []" by simp
  then have ht: "\<not> isWhiteSpace (hd ?t)" by (rule hd_dropWhile)
  have c: "?t = trim s @ rev (takeWhile isWhiteSpace (rev ?t))"
    unfolding trim_def by (rule rev_dropWhile_rev_split)
  have "hd ?t = hd (trim s)" using ne by (subst c) simp
  with ht l show ?thesis by simp
qed

lemma evaluate_text:
  assumes "q_type q = Text \<or> q_type q = FillBlank"
  shows "evaluate q sel raw =
     (Single (trim raw),
      (case correctAnswer q of
         Multi as \<Rightarrow> \<exists>a\<in>set as. ci_equal (trim raw) a
       | Single a \<Rightarrow> ci_equal (trim raw) a))"
  using assms
  by (auto simp: evaluate_def Let_def list_ex_iff toLowerCase_eq_iff split: answer.splits)

text \<open>
  Claim C1. For a text or fill-in-the-blank question the stored answer is the trimmed
  submission: the submission is the trimmed text between two runs of white space, and
  the trimmed text neither starts nor ends with white space. The verdict compares
  case-insensitively: against a set of accepted strings it is true exactly when the
  trimmed submission equals some member up to case, against a single string exactly when
  it equals that string up to case. Two submissions whose trimmed texts are equal up to
  case get the same verdict; so do the submissions \<open>"  Answer  "\<close>, \<open>"answer"\<close> and
  \<open>"Answer"\<close>.
\<close>

theorem text_answers_trimmed_case_insensitive:
  assumes "q_type q = Text \<or> q_type q = FillBlank"
  shows "fst (evaluate q sel raw) = Single (trim raw)
    \<and> (\<exists>pre post. raw = pre @ trim raw @ post
          \<and> list_all isWhiteSpace pre \<and> list_all isWhiteSpace post)
    \<and> (trim raw = [] \<or> (\<not> isWhiteSpace (hd (trim raw)) \<and> \<not> isWhiteSpace (last (trim raw))))
    \<and> (\<forall>as. correctAnswer q = Multi as \<longrightarrow>
          (snd (evaluate q sel raw) \<longleftrightarrow> (\<exists>a\<in>set as. ci_equal (trim raw) a)))
    \<and> (\<forall>a. correctAnswer q = Single a \<longrightarrow>
          (snd (evaluate q sel raw) \<longleftrightarrow> ci_equal (trim raw) a))
    \<and> (\<forall>raw'. ci_equal (trim raw) (trim raw') \<longrightarrow>
          snd (evaluate q sel raw') = snd (evaluate q sel raw))
    \<and> snd (evaluate q sel ''  Answer  '') = snd (evaluate q sel ''Answer'')
    \<and> snd (evaluate q sel ''answer'') = snd (evaluate q sel ''Answer'')"
proof -
  have e: "\<And>r. evaluate q sel r =
     (Single (trim r),
      (case correctAnswer q of
         Multi as \<Rightarrow> \<exists>a\<in>set as. ci_equal (trim r) a
       | Single a \<Rightarrow> ci_equal (trim r) a))"
    using assms by (rule evaluate_text)
  have same: "snd (evaluate q sel raw') = snd (evaluate q sel raw)"
    if "ci_equal (trim raw) (trim raw')" for raw'
  proof -
    from that have "toLowerCase (trim raw) = toLowerCase (trim raw')"
      by (simp add: toLowerCase_eq_iff)
    then have "\<And>a. ci_equal (trim raw) a = ci_equal (trim raw') a"
      by (simp add: toLowerCase_eq_iff[symmetric])
    then show ?thesis by (simp add: e split: answer.splits)
  qed
  have c1: "fst (evaluate q sel raw) = Single (trim raw)" by (simp add: e)
  have c3: "trim raw = [] \<or> (\<not> isWhiteSpace (hd (trim raw)) \<and> \<not> isWhiteSpace (last (trim raw)))"
    using trim_ends[of raw] by blast
  have c4: "\<forall>as. correctAnswer q = Multi as \<longrightarrow>
          (snd (evaluate q sel raw) \<longleftrightarrow> (\<exists>a\<in>set as. ci_equal (trim raw) a))"
    by (simp add: e)
  have c5: "\<forall>a. correctAnswer q = Single a \<longrightarrow>
          (snd (evaluate q sel raw) \<longleftrightarrow> ci_equal (trim raw) a)"
    by (simp add: e)
  have l1: "toLowerCase (trim ''  Answer  '') = toLowerCase (trim ''Answer'')" by code_simp
  have l2: "toLowerCase (trim ''answer'') = toLowerCase (trim ''Answer'')" by code_simp
  have c6: "snd (evaluate q sel ''  Answer  '') = snd (evaluate q sel ''Answer'')"
    using l1 by (simp add: e toLowerCase_eq_iff[symmetric] split: answer.splits)
  have c7: "snd (evaluate q sel ''answer'') = snd (evaluate q sel ''Answer'')"
    using l2 by (simp add: e toLowerCase_eq_iff[symmetric] split: answer.splits)
  from c1 trim_decompose[of raw] c3 c4 c5 same c6 c7 show ?thesis by blast
qed


theorem text_answers_trimmed_case_insensitive_witness:
  "(q_type es_question = Text \<or> q_type es_question = FillBlank)
   \<and> snd (evaluate es_question [] ''ES'')
   \<and> (q_type answer_question = Text \<or> q_type answer_question = FillBlank)
   \<and> snd (evaluate answer_question [] ''  Answer  '') = snd (evaluate answer_question [] ''Answer'')
   \<and> snd (evaluate answer_question [] ''answer'') = snd (evaluate answer_question [] ''Answer'')
   \<and> snd (evaluate answer_question [] ''Answer'')"
proof -
  have t1: "q_type es_question = Text \<or> q_type es_question = FillBlank"
    by (simp add: es_question_def)
  have t2: "q_type answer_question = Text \<or> q_type answer_question = FillBlank"
    by (simp add: answer_question_def)
  have c1: "correctAnswer es_question = Multi [''Es'', ''es'']"
    by (simp add: es_question_def)
  have c2: "correctAnswer answer_question = Single ''Answer''"
    by (simp add: answer_question_def)
  have m: "ci_equal (trim ''ES'') ''Es''" by code_simp
  have p1: "ci_equal (trim ''Answer'') (trim ''  Answer  '')" by code_simp
  have p2: "ci_equal (trim ''Answer'') (trim ''answer'')" by code_simp
  have p3: "ci_equal (trim ''Answer'') ''Answer''" by code_simp
  from text_answers_trimmed_case_insensitive[OF t1, of "[]" "''ES''"] c1 m
  have r1: "snd (evaluate es_question [] ''ES'')" by auto
  from text_answers_trimmed_case_insensitive[OF t2, of "[]" "''Answer''"] c2 p1 p2 p3
  have r2: "snd (evaluate answer_question [] ''  Answer  '') = snd (evaluate answer_question [] ''Answer'')"
    and r3: "snd (evaluate answer_question [] ''answer'') = snd (evaluate answer_question [] ''Answer'')"
    and r4: "snd (evaluate answer_question [] ''Answer'')"
    by blast+
  from t1 t2 r1 r2 r3 r4 show ?thesis by blast
qed

section \<open>Updating an answer in the store\<close>

lemma q_id_updateQuestion: "q_id (updateQuestion i a c q) = q_id q"
  by (simp add: updateQuestion_def)

lemma updateQuestion_idem:
  "updateQuestion i a c (updateQuestion i a c q) = updateQuestion i a c q"
  by (simp add: updateQuestion_def)

lemma updateSection_idem:
  "updateSection i a c (updateSection i a c s) = updateSection i a c s"
  by (simp add: updateSection_def updateQuestion_idem comp_def)

lemma hasQuestion_updateSection:
  "list_ex (\<lambda>q. q_id q = i) (questions (updateSection j a c s)) = list_ex (\<lambda>q. q_id q = i) (questions s)"
  by (simp add: updateSection_def list_ex_iff q_id_updateQuestion)

lemma hasQuestion_updateSections:
  "list_ex (\<lambda>s. list_ex (\<lambda>q. q_id q = i) (questions s)) (map (updateSection j a c) ss)
     = list_ex (\<lambda>s. list_ex (\<lambda>q. q_id q = i) (questions s)) ss"
  by (induction ss) (simp_all add: hasQuestion_updateSection)

lemma updateQuestionAnswer_twice:
  "updateQuestionAnswer i a c (updateQuestionAnswer i a c st) = updateQuestionAnswer i a c st"
proof (cases "getWorksheet st")
  case None
  then show ?thesis by (simp add: updateQuestionAnswer_def)
next
  case (Some w)
  let ?has = "list_ex (\<lambda>s. list_ex (\<lambda>q. q_id q = i) (questions s)) (sections w)"
  show ?thesis
  proof (cases ?has)
    case False
    with Some show ?thesis by (simp add: updateQuestionAnswer_def)
  next
    case True
    have h: "list_ex (\<lambda>s. list_ex (\<lambda>q. q_id q = i) (questions s)) (map (updateSection i a c) (sections w)) = ?has"
      by (rule hasQuestion_updateSections)
    from Some True show ?thesis
      by (simp add: updateQuestionAnswer_def saveWorksheet_def getWorksheet_def h True
          updateSection_idem comp_def)
  qed
qed

text \<open>
  Claim C5. A second call of \<open>updateQuestionAnswer\<close> with the same question id, answer
  and verdict changes nothing: the store, and with it the list of all questions, is
  the one the first call left.
\<close>

theorem updateQuestionAnswer_idempotent:
  "updateQuestionAnswer questionId answer correct (updateQuestionAnswer questionId answer correct st)
     = updateQuestionAnswer questionId answer correct st
   \<and> getAllQuestions (updateQuestionAnswer questionId answer correct
         (updateQuestionAnswer questionId answer correct st))
     = getAllQuestions (updateQuestionAnswer questionId answer correct st)"
  by (simp add: updateQuestionAnswer_twice)

theorem updateQuestionAnswer_idempotent_witness:
  "getAllQuestions (updateQuestionAnswer ''q6'' (Single ''ES'') True
       (updateQuestionAnswer ''q6'' (Single ''ES'') True demoStore))
     = getAllQuestions (updateQuestionAnswer ''q6'' (Single ''ES'') True demoStore)
   \<and> getAllQuestions (updateQuestionAnswer ''q6'' (Single ''ES'') True demoStore)
     \<noteq> getAllQuestions demoStore"
proof -
  have "getAllQuestions (updateQuestionAnswer ''q6'' (Single ''ES'') True demoStore)
     \<noteq> getAllQuestions demoStore" by code_simp
  with updateQuestionAnswer_idempotent[of "''q6''" "Single ''ES''" True demoStore]
  show ?thesis by simp
qed

lemma updateQuestion_other: "q_id q \<noteq> i \<Longrightarrow> updateQuestion i a c q = q"
  by (simp add: updateQuestion_def)

lemma updateQuestion_hit:
  "q_id q = i \<Longrightarrow> userAnswer (updateQuestion i a c q) = Some a \<and> isCorrect (updateQuestion i a c q) = Some c"
  by (simp add: updateQuestion_def)

lemma sameButAnswer_updateQuestion: "sameButAnswer q (updateQuestion i a c q)"
  by (simp add: sameButAnswer_def updateQuestion_def)

lemma updateSection_absent:
  "\<not> list_ex (\<lambda>q. q_id q = i) (questions s) \<Longrightarrow> updateSection i a c s = s"
  by (simp add: updateSection_def list_ex_iff updateQuestion_other map_idI)

lemma updateSections_absent:
  "\<not> list_ex (\<lambda>s. list_ex (\<lambda>q. q_id q = i) (questions s)) ss \<Longrightarrow> map (updateSection i a c) ss = ss"
  by (induction ss) (simp_all add: updateSection_absent)

lemma getWorksheet_updateQuestionAnswer:
  "getWorksheet st = Some w \<Longrightarrow>
   getWorksheet (updateQuestionAnswer i a c st) = Some (w\<lparr>sections := map (updateSection i a c) (sections w)\<rparr>)"
  by (simp add: updateQuestionAnswer_def saveWorksheet_def getWorksheet_def updateSections_absent)

lemma updateQuestionAnswer_other_keys:
  "CURRENT_QUESTION_KEY (updateQuestionAnswer i a c st) = CURRENT_QUESTION_KEY st
   \<and> STUDENT_INFO_KEY (updateQuestionAnswer i a c st) = STUDENT_INFO_KEY st
   \<and> COMPLETED_KEY (updateQuestionAnswer i a c st) = COMPLETED_KEY st"
  by (simp add: updateQuestionAnswer_def saveWorksheet_def split: option.splits)

lemma flatQuestions_update:
  "flatQuestions (w\<lparr>sections := map (updateSection i a c) (sections w)\<rparr>)
     = map (updateQuestion i a c) (flatQuestions w)"
  by (simp add: flatQuestions_def updateSection_def map_concat comp_def)

lemma hasQuestion_flat:
  "list_ex (\<lambda>s. list_ex (\<lambda>q. q_id q = i) (questions s)) (sections w) \<longleftrightarrow> i \<in> q_id ` set (flatQuestions w)"
  by (auto simp: flatQuestions_def list_ex_iff)

lemma updateQuestionAnswer_absent:
  "getWorksheet st = Some w \<Longrightarrow> i \<notin> q_id ` set (flatQuestions w) \<Longrightarrow> updateQuestionAnswer i a c st = st"
  by (simp add: updateQuestionAnswer_def hasQuestion_flat)

lemma sections_frame:
  "list_all2 (\<lambda>s s'. sameButQuestions s s' \<and>
       list_all2 (\<lambda>q q'. sameButAnswer q q' \<and> (q_id q \<noteq> i \<longrightarrow> q' = q)
                    \<and> (q_id q = i \<longrightarrow> userAnswer q' = Some a \<and> isCorrect q' = Some c))
         (questions s) (questions s'))
     ss (map (updateSection i a c) ss)"
  by (simp add: list_all2_map2 list.rel_refl_strong sameButQuestions_def updateSection_def
      sameButAnswer_updateQuestion updateQuestion_other updateQuestion_hit)

lemma one_changed:
  assumes d: "distinct (map q_id xs)"
    and j: "j < length xs" and k: "k < length xs"
    and cj: "map (updateQuestion i a c) xs ! j \<noteq> xs ! j"
    and ck: "map (updateQuestion i a c) xs ! k \<noteq> xs ! k"
  shows "j = k"
proof -
  from j cj have "q_id (xs ! j) = i" by (auto simp: updateQuestion_def split: if_splits)
  moreover from k ck have "q_id (xs ! k) = i" by (auto simp: updateQuestion_def split: if_splits)
  ultimately have "map q_id xs ! j = map q_id xs ! k" using j k by simp
  moreover have "j < length (map q_id xs)" "k < length (map q_id xs)" using j k by simp_all
  ultimately show ?thesis using d nth_eq_iff_index_eq by blast
qed

text \<open>
  Claim C6. \<open>updateQuestionAnswer\<close> is a no-op when no worksheet is stored or no
  question has the given id. Otherwise the stored worksheet keeps its id, title and
  description; its sections stay in place with their id, title and instructions; the
  questions stay in place and differ from the old ones at most in \<open>userAnswer\<close> and
  \<open>isCorrect\<close>; a question with another id is unchanged and a question with the given
  id carries the given answer and verdict; when the question ids are distinct, at most
  one position of the list of all questions changes. The index, the student and the
  completed slots are untouched.
\<close>

theorem updateQuestionAnswer_frame:
  "(getWorksheet st = None \<longrightarrow> updateQuestionAnswer i a c st = st)
   \<and> (\<forall>w. getWorksheet st = Some w \<longrightarrow>
         (i \<notin> q_id ` set (flatQuestions w) \<longrightarrow> updateQuestionAnswer i a c st = st)
       \<and> (\<exists>w'. getWorksheet (updateQuestionAnswer i a c st) = Some w'
             \<and> sameButSections w w'
             \<and> w_id w' = w_id w \<and> w_title w' = w_title w \<and> description w' = description w
             \<and> map s_id (sections w') = map s_id (sections w)
             \<and> map s_title (sections w') = map s_title (sections w)
             \<and> map instructions (sections w') = map instructions (sections w)
             \<and> map q_id (flatQuestions w') = map q_id (flatQuestions w)
             \<and> list_all2 (\<lambda>s s'. sameButQuestions s s' \<and>
                   list_all2 (\<lambda>q q'. sameButAnswer q q' \<and> (q_id q \<noteq> i \<longrightarrow> q' = q)
                                \<and> (q_id q = i \<longrightarrow> userAnswer q' = Some a \<and> isCorrect q' = Some c))
                     (questions s) (questions s'))
                 (sections w) (sections w')
             \<and> (distinct (map q_id (flatQuestions w)) \<longrightarrow>
                  (\<forall>j k. j < length (flatQuestions w) \<and> k < length (flatQuestions w)
                      \<and> flatQuestions w' ! j \<noteq> flatQuestions w ! j
                      \<and> flatQuestions w' ! k \<noteq> flatQuestions w ! k \<longrightarrow> j = k))))
   \<and> CURRENT_QUESTION_KEY (updateQuestionAnswer i a c st) = CURRENT_QUESTION_KEY st
   \<and> STUDENT_INFO_KEY (updateQuestionAnswer i a c st) = STUDENT_INFO_KEY st
   \<and> COMPLETED_KEY (updateQuestionAnswer i a c st) = COMPLETED_KEY st"
proof -
  have none: "getWorksheet st = None \<longrightarrow> updateQuestionAnswer i a c st = st"
    by (simp add: updateQuestionAnswer_def)
  have some: "(i \<notin> q_id ` set (flatQuestions w) \<longrightarrow> updateQuestionAnswer i a c st = st)
       \<and> (\<exists>w'. getWorksheet (updateQuestionAnswer i a c st) = Some w'
             \<and> sameButSections w w'
             \<and> w_id w' = w_id w \<and> w_title w' = w_title w \<and> description w' = description w
             \<and> map s_id (sections w') = map s_id (sections w)
             \<and> map s_title (sections w') = map s_title (sections w)
             \<and> map instructions (sections w') = map instructions (sections w)
             \<and> map q_id (flatQuestions w') = map q_id (flatQuestions w)
             \<and> list_all2 (\<lambda>s s'. sameButQuestions s s' \<and>
                   list_all2 (\<lambda>q q'. sameButAnswer q q' \<and> (q_id q \<noteq> i \<longrightarrow> q' = q)
                                \<and> (q_id q = i \<longrightarrow> userAnswer q' = Some a \<and> isCorrect q' = Some c))
                     (questions s) (questions s'))
                 (sections w) (sections w')
             \<and> (distinct (map q_id (flatQuestions w)) \<longrightarrow>
                  (\<forall>j k. j < length (flatQuestions w) \<and> k < length (flatQuestions w)
                      \<and> flatQuestions w' ! j \<noteq> flatQuestions w ! j
                      \<and> flatQuestions w' ! k \<noteq> flatQuestions w ! k \<longrightarrow> j = k)))"
    if w: "getWorksheet st = Some w" for w
  proof -
    let ?w' = "w\<lparr>sections := map (updateSection i a c) (sections w)\<rparr>"
    have g: "getWorksheet (updateQuestionAnswer i a c st) = Some ?w'"
      using w by (rule getWorksheet_updateQuestionAnswer)
    have f1: "sameButSections w ?w'" by (simp add: sameButSections_def)
    have f2: "w_id ?w' = w_id w \<and> w_title ?w' = w_title w \<and> description ?w' = description w"
      by simp
    have f3: "map s_id (sections ?w') = map s_id (sections w)
        \<and> map s_title (sections ?w') = map s_title (sections w)
        \<and> map instructions (sections ?w') = map instructions (sections w)"
      by (simp add: updateSection_def comp_def)
    have f4: "map q_id (flatQuestions ?w') = map q_id (flatQuestions w)"
      by (simp add: flatQuestions_update comp_def q_id_updateQuestion)
    have f5: "list_all2 (\<lambda>s s'. sameButQuestions s s' \<and>
                   list_all2 (\<lambda>q q'. sameButAnswer q q' \<and> (q_id q \<noteq> i \<longrightarrow> q' = q)
                                \<and> (q_id q = i \<longrightarrow> userAnswer q' = Some a \<and> isCorrect q' = Some c))
                     (questions s) (questions s'))
                 (sections w) (sections ?w')"
      using sections_frame[of i a c "sections w"] by simp
    have f6: "distinct (map q_id (flatQuestions w)) \<longrightarrow>
                  (\<forall>j k. j < length (flatQuestions w) \<and> k < length (flatQuestions w)
                      \<and> flatQuestions ?w' ! j \<noteq> flatQuestions w ! j
                      \<and> flatQuestions ?w' ! k \<noteq> flatQuestions w ! k \<longrightarrow> j = k)"
      unfolding flatQuestions_update using one_changed by blast
    have a: "i \<notin> q_id ` set (flatQuestions w) \<longrightarrow> updateQuestionAnswer i a c st = st"
      using w updateQuestionAnswer_absent by blast
    from g f1 f2 f3 f4 f5 f6 a show ?thesis by blast
  qed
  from none some updateQuestionAnswer_other_keys[of i a c st] show ?thesis by blast
qed

theorem updateQuestionAnswer_frame_witness:
  "getWorksheet demoStore = Some createSampleWorksheet
   \<and> distinct (map q_id (flatQuestions createSampleWorksheet))
   \<and> ''q6'' \<in> q_id ` set (flatQuestions createSampleWorksheet)
   \<and> (\<exists>w'. getWorksheet (updateQuestionAnswer ''q6'' (Single ''ES'') True demoStore) = Some w'
         \<and> w' \<noteq> createSampleWorksheet
         \<and> w_id w' = ''demo-worksheet''
         \<and> map q_id (flatQuestions w') = map q_id (flatQuestions createSampleWorksheet))
   \<and> updateQuestionAnswer ''q11'' (Single ''ES'') True demoStore = demoStore
   \<and> updateQuestionAnswer ''q6'' (Single ''ES'') True emptyStorage = emptyStorage"
proof -
  have g: "getWorksheet demoStore = Some createSampleWorksheet" by code_simp
  have d: "distinct (map q_id (flatQuestions createSampleWorksheet))" by code_simp
  have m: "''q6'' \<in> q_id ` set (flatQuestions createSampleWorksheet)" by code_simp
  have n: "''q11'' \<notin> q_id ` set (flatQuestions createSampleWorksheet)" by code_simp
  have e: "getWorksheet emptyStorage = None" by code_simp
  have i: "w_id createSampleWorksheet = ''demo-worksheet''" by code_simp
  have ne: "getWorksheet (updateQuestionAnswer ''q6'' (Single ''ES'') True demoStore) \<noteq> Some createSampleWorksheet"
    by code_simp
  note f = updateQuestionAnswer_frame[of demoStore "''q6''" "Single ''ES''" True]
  from f g obtain w' where w': "getWorksheet (updateQuestionAnswer ''q6'' (Single ''ES'') True demoStore) = Some w'"
      "w_id w' = w_id createSampleWorksheet"
      "map q_id (flatQuestions w') = map q_id (flatQuestions createSampleWorksheet)"
    by blast
  from w' ne have "w' \<noteq> createSampleWorksheet" by simp
  with w' i
  have 1: "\<exists>w'. getWorksheet (updateQuestionAnswer ''q6'' (Single ''ES'') True demoStore) = Some w'
         \<and> w' \<noteq> createSampleWorksheet
         \<and> w_id w' = ''demo-worksheet''
         \<and> map q_id (flatQuestions w') = map q_id (flatQuestions createSampleWorksheet)"
    by simp
  from updateQuestionAnswer_frame[of demoStore "''q11''" "Single ''ES''" True] g n
  have 2: "updateQuestionAnswer ''q11'' (Single ''ES'') True demoStore = demoStore" by blast
  from updateQuestionAnswer_frame[of emptyStorage "''q6''" "Single ''ES''" True] e
  have 3: "updateQuestionAnswer ''q6'' (Single ''ES'') True emptyStorage = emptyStorage" by blast
  from g d m 1 2 3 show ?thesis by blast
qed

section \<open>The answer invariant\<close>

lemma processQuestions_consistent:
  "list_all (\<lambda>q. (raw_userAnswer q = None) = (raw_isCorrect q = None)) rqs \<Longrightarrow>
   list_all answeredConsistently (fst (processQuestions gen n rqs))"
proof (induction rqs arbitrary: n)
  case Nil
  show ?case by simp
next
  case (Cons rq rqs)
  obtain qs' n' where r: "processQuestions gen (Suc n) rqs = (qs', n')"
    by (cases "processQuestions gen (Suc n) rqs")
  from Cons.prems have "list_all (\<lambda>q. (raw_userAnswer q = None) = (raw_isCorrect q = None)) rqs"
    by simp
  from Cons.IH[OF this, of "Suc n"] r have "list_all answeredConsistently qs'" by simp
  moreover from Cons.prems have "(raw_userAnswer rq = None) = (raw_isCorrect rq = None)" by simp
  ultimately show ?case using r by (simp add: Let_def) (simp add: answeredConsistently_def)
qed

lemma processSections_consistent:
  "list_all (\<lambda>s. list_all (\<lambda>q. (raw_userAnswer q = None) = (raw_isCorrect q = None))
                         (raw_questions s)) rss \<Longrightarrow>
   list_all answeredConsistently (concat (map questions (fst (processSections gen n rss))))"
proof (induction rss arbitrary: n)
  case Nil
  show ?case by simp
next
  case (Cons rs rss)
  obtain qs n1 where q: "processQuestions gen (Suc n) (raw_questions rs) = (qs, n1)"
    by (cases "processQuestions gen (Suc n) (raw_questions rs)")
  obtain ss' n2 where r: "processSections gen n1 rss = (ss', n2)"
    by (cases "processSections gen n1 rss")
  from Cons.prems
  have h: "list_all (\<lambda>q. (raw_userAnswer q = None) = (raw_isCorrect q = None)) (raw_questions rs)"
    and t: "list_all (\<lambda>s. list_all (\<lambda>q. (raw_userAnswer q = None) = (raw_isCorrect q = None))
                         (raw_questions s)) rss"
    by simp_all
  from processQuestions_consistent[OF h, of gen "Suc n"] q
  have 1: "list_all answeredConsistently qs" by simp
  from Cons.IH[OF t, of n1] r
  have 2: "list_all answeredConsistently (concat (map questions ss'))" by simp
  from 1 2 q r show ?case by (simp add: Let_def)
qed

lemma processedWorksheet_consistent:
  assumes "replyConsistent parsed"
  shows "list_all answeredConsistently (flatQuestions (processedWorksheet gen parsed))"
proof -
  obtain ss n where r: "processSections gen 1 (raw_sections parsed) = (ss, n)"
    by (cases "processSections gen 1 (raw_sections parsed)")
  from assms processSections_consistent[of "raw_sections parsed" gen 1] r
  have "list_all answeredConsistently (concat (map questions ss))"
    by (simp add: replyConsistent_def)
  with r show ?thesis by (simp add: processedWorksheet_def flatQuestions_def Let_def)
qed

lemma fresh_consistent:
  "list_all (\<lambda>q. userAnswer q = None \<and> isCorrect q = None) qs \<Longrightarrow> list_all answeredConsistently qs"
  by (simp add: list_all_iff answeredConsistently_def)

lemma sample_fresh:
  "list_all (\<lambda>q. userAnswer q = None \<and> isCorrect q = None) (flatQuestions createSampleWorksheet)"
  by (simp add: createSampleWorksheet_def flatQuestions_def matchingQuestion_def fillBlankQuestion_def)

lemma answerInvariant_clear: "answerInvariant (clearStorage st)"
  by (simp add: answerInvariant_def clearStorage_def getWorksheet_def)

lemma answerInvariant_save:
  "list_all answeredConsistently (flatQuestions w) \<Longrightarrow> answerInvariant (saveWorksheet w st)"
  by (simp add: answerInvariant_def saveWorksheet_def getWorksheet_def)

lemma answeredConsistently_updateQuestion:
  "answeredConsistently q \<Longrightarrow> answeredConsistently (updateQuestion i a c q)"
  by (simp add: answeredConsistently_def updateQuestion_def)

lemma answerInvariant_update:
  assumes "answerInvariant st"
  shows "answerInvariant (updateQuestionAnswer i a c st)"
proof (cases "getWorksheet st")
  case None
  with assms show ?thesis by (simp add: updateQuestionAnswer_def)
next
  case (Some w)
  from assms Some have "list_all answeredConsistently (flatQuestions w)"
    by (simp add: answerInvariant_def)
  then have "list_all answeredConsistently (map (updateQuestion i a c) (flatQuestions w))"
    by (simp add: list_all_iff answeredConsistently_updateQuestion)
  with getWorksheet_updateQuestionAnswer[OF Some, of i a c] show ?thesis
    by (simp add: answerInvariant_def flatQuestions_update)
qed

lemma answerInvariant_upload:
  assumes "answerInvariant st"
    and "\<And>f s w e. p f s = Returned \<lparr>res_worksheet = Some w, res_error = e\<rparr>
           \<Longrightarrow> list_all answeredConsistently (flatQuestions w)"
  shows "answerInvariant (up_storage (uploadHandleSubmit fl p st))"
proof (cases fl)
  case None
  with assms(1) show ?thesis by (simp add: uploadHandleSubmit_def)
next
  case (Some f)
  show ?thesis
  proof (cases "p f (clearStorage st)")
    case Threw
    with Some show ?thesis by (simp add: uploadHandleSubmit_def answerInvariant_clear)
  next
    case (Returned r)
    show ?thesis
    proof (cases "res_worksheet r")
      case None
      with Some Returned show ?thesis by (simp add: uploadHandleSubmit_def answerInvariant_clear)
    next
      case (Some w)
      then have "r = \<lparr>res_worksheet = Some w, res_error = res_error r\<rparr>" by simp
      with Returned assms(2) have "list_all answeredConsistently (flatQuestions w)" by metis
      with \<open>fl = Some f\<close> Returned Some show ?thesis
        by (simp add: uploadHandleSubmit_def Let_def answerInvariant_clear answerInvariant_save)
    qed
  qed
qed

lemma answerInvariant_other_slots:
  "answerInvariant (saveStudentInfo info st) = answerInvariant st"
  "answerInvariant (saveCurrentQuestionIndex n st) = answerInvariant st"
  "answerInvariant (markAsCompleted b st) = answerInvariant st"
  by (simp_all add: answerInvariant_def getWorksheet_def saveStudentInfo_def
      saveCurrentQuestionIndex_def markAsCompleted_def)

lemma markedReply_store:
  "getWorksheet (up_storage (uploadHandleSubmit (Some pngFile)
      (\<lambda>f s. Returned \<lparr>res_worksheet = Some (processedWorksheet sampleGen markedReply),
                              res_error = None\<rparr>) emptyStorage))
     = Some (processedWorksheet sampleGen markedReply)"
  by (simp add: uploadHandleSubmit_def Let_def saveWorksheet_def getWorksheet_def)

text \<open>
  Claim C7 fails as stated: the ingestion copies the fields of the reply's questions,
  so a reply whose question carries \<open>isCorrect\<close> and no \<open>userAnswer\<close> puts a question
  with exactly one of the two fields into the store.
\<close>

theorem answerInvariant_counterexample:
  "reachable anyReply (up_storage (uploadHandleSubmit (Some pngFile)
      (ingestReply sampleGen markedReply) emptyStorage))
   \<and> \<not> answerInvariant (up_storage (uploadHandleSubmit (Some pngFile)
      (ingestReply sampleGen markedReply) emptyStorage))"
proof -
  have i: "ingestReply sampleGen markedReply =
      (\<lambda>f s. Returned \<lparr>res_worksheet = Some (processedWorksheet sampleGen markedReply),
                              res_error = None\<rparr>)"
    by (intro ext) (simp add: ingestReply_def)
  have "anyReply markedReply" by (simp add: anyReply_def)
  then have r: "reachable anyReply (up_storage (uploadHandleSubmit (Some pngFile)
      (ingestReply sampleGen markedReply) emptyStorage))"
    unfolding i by (intro reachable.upload_returned reachable.start)
  have "\<not> list_all answeredConsistently (flatQuestions (processedWorksheet sampleGen markedReply))"
    by code_simp
  then have n: "\<not> answerInvariant (up_storage (uploadHandleSubmit (Some pngFile)
      (ingestReply sampleGen markedReply) emptyStorage))"
    unfolding i by (simp add: answerInvariant_def markedReply_store)
  from r n show ?thesis by blast
qed

text \<open>
  Claim C7, amended. The demonstration worksheet has neither answer field on any
  question, \<open>updateQuestionAnswer\<close> sets both fields of a question in one replacement,
  and the ingestion passes on the answer fields that the reply's questions carry. So
  when every reply of the remote model is consistent (each of its questions carries
  both fields or neither), every store that a session can reach satisfies the
  invariant: no question of the stored worksheet has exactly one of \<open>userAnswer\<close> and
  \<open>isCorrect\<close>.
\<close>

theorem reachable_answerInvariant:
  assumes "\<forall>parsed. replies parsed \<longrightarrow> replyConsistent parsed"
    and "reachable replies st"
  shows "answerInvariant st"
  using assms(2)
proof (induction rule: reachable.induct)
  case start
  show ?case by (simp add: answerInvariant_def emptyStorage_def getWorksheet_def)
next
  case (demo st)
  show ?case unfolding handleDemoClick_def
    by (rule answerInvariant_save) (rule fresh_consistent, rule sample_fresh)
next
  case (upload_threw st fl)
  then show ?case by (intro answerInvariant_upload) simp_all
next
  case (upload_returned_null st fl e)
  then show ?case by (intro answerInvariant_upload) simp_all
next
  case (upload_returned st parsed fl gen e)
  from assms(1) upload_returned(2) have "replyConsistent parsed" by blast
  then have "list_all answeredConsistently (flatQuestions (processedWorksheet gen parsed))"
    by (rule processedWorksheet_consistent)
  with upload_returned(3) show ?case by (intro answerInvariant_upload) auto
next
  case (student st info)
  then show ?case by (simp add: answerInvariant_other_slots)
next
  case (submit st question ui ui' st')
  then have "st' = updateQuestionAnswer (q_id question)
      (fst (evaluate question (selectedOption ui) (textAnswer ui)))
      (snd (evaluate question (selectedOption ui) (textAnswer ui))) st"
    by (auto simp: clickSubmit_def handleSubmit_def Let_def split: if_splits prod.splits)
  with submit show ?case by (simp add: answerInvariant_update)
next
  case (update st questionId answer correct)
  then show ?case by (simp add: answerInvariant_update)
next
  case (next_question st ws)
  then show ?case by (simp add: handleNextQuestion_def Let_def answerInvariant_other_slots)
next
  case (finish st ws)
  then show ?case by (simp add: handleFinish_def answerInvariant_other_slots)
next
  case (start_new st)
  show ?case by (simp add: handleStartNew_def answerInvariant_clear)
qed

theorem reachable_answerInvariant_witness:
  "replyConsistent sampleReply
   \<and> reachable replyConsistent (updateQuestionAnswer ''uuu'' (Single ''B'') True
        (up_storage (uploadHandleSubmit (Some pngFile) (ingestReply sampleGen sampleReply)
           demoStore)))
   \<and> answerInvariant (updateQuestionAnswer ''uuu'' (Single ''B'') True
        (up_storage (uploadHandleSubmit (Some pngFile) (ingestReply sampleGen sampleReply)
           demoStore)))
   \<and> getCompletedQuestionsCount (updateQuestionAnswer ''uuu'' (Single ''B'') True
        (up_storage (uploadHandleSubmit (Some pngFile) (ingestReply sampleGen sampleReply)
           demoStore))) = 1"
proof -
  have i: "ingestReply sampleGen sampleReply =
      (\<lambda>f s. Returned \<lparr>res_worksheet = Some (processedWorksheet sampleGen sampleReply),
                              res_error = None\<rparr>)"
    by (intro ext) (simp add: ingestReply_def)
  have c: "replyConsistent sampleReply" by code_simp
  have r: "reachable replyConsistent (updateQuestionAnswer ''uuu'' (Single ''B'') True
        (up_storage (uploadHandleSubmit (Some pngFile) (ingestReply sampleGen sampleReply)
           demoStore)))"
    unfolding i demoStore_def
    by (intro reachable.update reachable.upload_returned reachable.demo reachable.start c)
  have h: "\<forall>parsed. replyConsistent parsed \<longrightarrow> replyConsistent parsed" by simp
  have n: "getCompletedQuestionsCount (updateQuestionAnswer ''uuu'' (Single ''B'') True
        (up_storage (uploadHandleSubmit (Some pngFile) (ingestReply sampleGen sampleReply)
           demoStore))) = 1"
    by code_simp
  show ?thesis by (intro conjI c r reachable_answerInvariant[OF h r] n)
qed

section \<open>Identifier backfill\<close>

lemma letters: "i < 26 \<Longrightarrow> sequentialId i = [alphabet ! i]"
proof -
  have "list_all (\<lambda>i. sequentialId i = [alphabet ! i]) [0 ..< 26]" by code_simp
  moreover assume "i < 26"
  ultimately show ?thesis by (simp add: list_all_iff)
qed

lemma fromCharCode_sequentialId: "fromCharCode (97 + i) = sequentialId i"
  by (simp add: fromCharCode_def sequentialId_def)

lemma fromCharCode_nonempty: "fromCharCode n \<noteq> []"
  by (simp add: fromCharCode_def)

lemma optionFrom_processOption: "optionFrom i ro (processOption ro i)"
  by (auto simp: optionFrom_def processOption_def lacksId_def fromCharCode_sequentialId
      sequentialId_def split: option.splits)

lemma optionsFrom_processOptions: "optionsFrom ros (processOptions ros)"
  by (simp add: optionsFrom_def processOptions_def optionFrom_processOption)

lemma processQuestions_spec:
  "processQuestions gen n rqs = (qs, n') \<Longrightarrow>
     n' = n + length rqs \<and> map q_id qs = map gen [n ..< n'] \<and> list_all2 questionFrom rqs qs"
proof (induction rqs arbitrary: n qs n')
  case Nil
  then show ?case by simp
next
  case (Cons rq rqs)
  obtain qs1 n1 where r: "processQuestions gen (Suc n) rqs = (qs1, n1)"
    by (cases "processQuestions gen (Suc n) rqs")
  from Cons.IH[OF r] have ih: "n1 = Suc n + length rqs" "map q_id qs1 = map gen [Suc n ..< n1]"
    "list_all2 questionFrom rqs qs1" by simp_all
  from Cons.prems r have n': "n' = n1" and qs: "qs = \<lparr>q_id = gen n, q_type = raw_q_type rq,
      q_text = raw_q_text rq, q_options = map_option processOptions (raw_q_options rq),
      correctAnswer = raw_correctAnswer rq, userAnswer = raw_userAnswer rq,
      isCorrect = raw_isCorrect rq\<rparr> # qs1"
    by (simp_all add: Let_def)
  have q: "questionFrom rq (hd qs)"
    by (cases "raw_q_options rq") (simp_all add: qs questionFrom_def optionsFrom_processOptions)
  have "n < n1" using ih(1) by simp
  then have "[n ..< n1] = n # [Suc n ..< n1]" by (rule upt_conv_Cons)
  with ih n' qs q show ?case by simp
qed

lemma processSections_spec:
  "processSections gen n rss = (ss, n') \<Longrightarrow>
     n \<le> n' \<and> concat (map (\<lambda>s. s_id s # map q_id (questions s)) ss) = map gen [n ..< n']
     \<and> list_all2 sectionFrom rss ss"
proof (induction rss arbitrary: n ss n')
  case Nil
  then show ?case by simp
next
  case (Cons rs rss)
  obtain qs n1 where q: "processQuestions gen (Suc n) (raw_questions rs) = (qs, n1)"
    by (cases "processQuestions gen (Suc n) (raw_questions rs)")
  obtain ss1 n2 where r: "processSections gen n1 rss = (ss1, n2)"
    by (cases "processSections gen n1 rss")
  from processQuestions_spec[OF q] have pq: "n1 = Suc n + length (raw_questions rs)"
    "map q_id qs = map gen [Suc n ..< n1]" "list_all2 questionFrom (raw_questions rs) qs"
    by simp_all
  from Cons.IH[OF r] have ih: "n1 \<le> n2"
    "concat (map (\<lambda>s. s_id s # map q_id (questions s)) ss1) = map gen [n1 ..< n2]"
    "list_all2 sectionFrom rss ss1" by simp_all
  from Cons.prems q r have n': "n' = n2" and ss: "ss = \<lparr>s_id = gen n, s_title = raw_s_title rs,
      instructions = raw_instructions rs, questions = qs\<rparr> # ss1"
    by (simp_all add: Let_def)
  have le: "Suc n \<le> n1" using pq(1) by simp
  have c1: "n \<le> n'" using n' le ih(1) by simp
  have "[Suc n ..< n2] = [Suc n ..< n1] @ [n1 ..< n2]"
    using le ih(1) by (metis le_add_diff_inverse upt_add_eq_append)
  moreover have "n < n2" using le ih(1) by simp
  then have "[n ..< n2] = n # [Suc n ..< n2]" by (rule upt_conv_Cons)
  ultimately have split: "[n ..< n2] = n # [Suc n ..< n1] @ [n1 ..< n2]" by simp
  have "concat (map (\<lambda>s. s_id s # map q_id (questions s)) ss)
      = gen n # map q_id qs @ concat (map (\<lambda>s. s_id s # map q_id (questions s)) ss1)"
    by (simp add: ss)
  also have "\<dots> = gen n # map gen [Suc n ..< n1] @ map gen [n1 ..< n2]"
    by (simp only: pq(2) ih(2))
  also have "\<dots> = map gen (n # [Suc n ..< n1] @ [n1 ..< n2])" by simp
  also have "\<dots> = map gen [n ..< n']" by (simp only: split n')
  finally have c2: "concat (map (\<lambda>s. s_id s # map q_id (questions s)) ss) = map gen [n ..< n']" .
  have "sectionFrom rs \<lparr>s_id = gen n, s_title = raw_s_title rs,
      instructions = raw_instructions rs, questions = qs\<rparr>"
    by (simp add: sectionFrom_def pq(3))
  then have c3: "list_all2 sectionFrom (rs # rss) ss" using ih(3) by (simp add: ss)
  from c1 c2 c3 show ?case by blast
qed

lemma list_all2_right:
  "list_all2 P xs ys \<Longrightarrow> y \<in> set ys \<Longrightarrow> \<exists>x \<in> set xs. P x y"
  by (induction rule: list_all2_induct) auto

lemma questionFrom_option_ids:
  assumes "questionFrom rq q" and "q_options q = Some os" and "opt \<in> set os"
  shows "o_id opt \<noteq> []"
proof -
  from assms(1,2) obtain ros where "optionsFrom ros os"
    by (auto simp: questionFrom_def option_rel_Some2)
  then have len: "length os = length ros" and all: "\<forall>i < length ros. optionFrom i (ros ! i) (os ! i)"
    by (simp_all add: optionsFrom_def)
  from assms(3) obtain i where "i < length os" "os ! i = opt" by (auto simp: in_set_conv_nth)
  with len all have "optionFrom i (ros ! i) opt" by auto
  then show ?thesis by (simp add: optionFrom_def)
qed

lemma worksheetFrom_option_ids:
  assumes "worksheetFrom rw w" and "x \<in> set (optionIds w)"
  shows "x \<noteq> []"
proof -
  from assms(2) obtain q os opt where q: "q \<in> set (flatQuestions w)" and os: "q_options q = Some os"
    and opt: "opt \<in> set os" and x: "x = o_id opt"
    by (auto simp: optionIds_def split: option.splits) (metis)
  from q obtain s where s: "s \<in> set (sections w)" and qs: "q \<in> set (questions s)"
    by (auto simp: flatQuestions_def)
  from assms(1) have "list_all2 sectionFrom (raw_sections rw) (sections w)"
    by (simp add: worksheetFrom_def)
  from list_all2_right[OF this s] obtain rs where "sectionFrom rs s" by blast
  then have "list_all2 questionFrom (raw_questions rs) (questions s)" by (simp add: sectionFrom_def)
  from list_all2_right[OF this qs] obtain rq where "questionFrom rq q" by blast
  from questionFrom_option_ids[OF this os opt] x show ?thesis by simp
qed

lemma processedWorksheet_spec:
  "\<exists>n. worksheetIds (processedWorksheet gen parsed) = map gen [0 ..< n]
     \<and> worksheetFrom parsed (processedWorksheet gen parsed)"
proof -
  obtain ss n where r: "processSections gen 1 (raw_sections parsed) = (ss, n)"
    by (cases "processSections gen 1 (raw_sections parsed)")
  from processSections_spec[OF r] have le: "1 \<le> n"
    and ids: "concat (map (\<lambda>s. s_id s # map q_id (questions s)) ss) = map gen [1 ..< n]"
    and frm: "list_all2 sectionFrom (raw_sections parsed) ss" by simp_all
  have w: "processedWorksheet gen parsed = \<lparr>w_id = gen 0, w_title = raw_title parsed,
      description = raw_description parsed, sections = ss\<rparr>"
    using r by (simp add: processedWorksheet_def)
  from le have "0 < n" by simp
  then have "[0 ..< n] = 0 # [1 ..< n]" by (simp add: upt_conv_Cons)
  then have "worksheetIds (processedWorksheet gen parsed) = map gen [0 ..< n]"
    by (simp add: w worksheetIds_def ids)
  moreover have "worksheetFrom parsed (processedWorksheet gen parsed)"
    by (simp add: w worksheetFrom_def frm)
  ultimately show ?thesis by blast
qed

lemma upload_reads_back:
  "getWorksheet (up_storage (uploadHandleSubmit (Some f) (ingestReply gen parsed) st))
     = Some (processedWorksheet gen parsed)"
  by (simp add: uploadHandleSubmit_def ingestReply_def Let_def saveWorksheet_def getWorksheet_def)

text \<open>
  Claim C8 fails as stated: the id given to an option without one is the single
  character that follows \<open>a\<close> at the distance of the option's position, and from the
  twenty-seventh option on that character is not a letter; the twenty-seventh gets
  the id \<open>{\<close>.
\<close>

theorem option_letters_counterexample:
  "length manyOptions = 27
   \<and> list_all lacksId manyOptions
   \<and> length (optionIds (processedWorksheet sampleGen manyOptionsReply)) = 27
   \<and> optionIds (processedWorksheet sampleGen manyOptionsReply) ! 25 = ''z''
   \<and> optionIds (processedWorksheet sampleGen manyOptionsReply) ! 26 = ''{''
   \<and> CHR ''{'' \<notin> set alphabet"
  by code_simp

text \<open>
  Claim C8, amended. Let the identifier source give pairwise different, non-empty
  values. Then the worksheet made from a parsed reply has, for itself, its sections and
  its questions, exactly the values the source gave, in document order, hence pairwise
  different ones; its sections, questions and options are those of the reply in the
  same order; an option that came without an id has as id the single character that
  follows \<open>a\<close> at the distance of its position in the array (stated for the
  positions up to 158, where that character is a code unit below 256), which is the
  letter \<open>a\<close>, \<open>b\<close>, \<open>c\<close>, ... for the first twenty-six positions and \<open>{\<close> for
  the twenty-seventh; after the upload the store gives back this worksheet, and the id
  of the worksheet, of every section, of every question and of every option is not
  empty.
\<close>

theorem ingestion_backfills_ids:
  assumes "inj gen" and "\<forall>k. gen k \<noteq> []"
  shows "worksheetIds (processedWorksheet gen parsed)
           = map gen [0 ..< length (worksheetIds (processedWorksheet gen parsed))]
    \<and> distinct (worksheetIds (processedWorksheet gen parsed))
    \<and> worksheetFrom parsed (processedWorksheet gen parsed)
    \<and> getWorksheet (up_storage (uploadHandleSubmit (Some f) (ingestReply gen parsed) st))
          = Some (processedWorksheet gen parsed)
    \<and> (\<forall>x \<in> set (worksheetIds (processedWorksheet gen parsed)
                  @ optionIds (processedWorksheet gen parsed)). x \<noteq> [])
    \<and> (\<forall>i < 26. sequentialId i = [alphabet ! i])
    \<and> sequentialId 26 = ''{''"
proof -
  let ?w = "processedWorksheet gen parsed"
  from processedWorksheet_spec[of gen parsed] obtain n
    where ids: "worksheetIds ?w = map gen [0 ..< n]" and frm: "worksheetFrom parsed ?w" by blast
  from ids have "length (worksheetIds ?w) = n" by simp
  with ids have c1: "worksheetIds ?w = map gen [0 ..< length (worksheetIds ?w)]" by simp
  have "inj_on gen (set [0 ..< n])" using assms(1) by (rule inj_on_subset) simp
  then have c2: "distinct (worksheetIds ?w)" by (simp add: ids distinct_map)
  have c5: "\<forall>x \<in> set (worksheetIds ?w @ optionIds ?w). x \<noteq> []"
  proof
    fix x assume "x \<in> set (worksheetIds ?w @ optionIds ?w)"
    then consider "x \<in> set (map gen [0 ..< n])" | "x \<in> set (optionIds ?w)"
      using ids by auto
    then show "x \<noteq> []"
    proof cases
      case 1
      then show ?thesis using assms(2) by auto
    next
      case 2
      with frm show ?thesis by (rule worksheetFrom_option_ids)
    qed
  qed
  have c6: "\<forall>i < 26. sequentialId i = [alphabet ! i]" by (simp add: letters)
  have c7: "sequentialId 26 = ''{''" by code_simp
  from c1 c2 frm upload_reads_back[of f gen parsed st] c5 c6 c7 show ?thesis by blast
qed

theorem ingestion_backfills_ids_witness:
  "inj sampleGen \<and> (\<forall>k. sampleGen k \<noteq> [])
   \<and> distinct (worksheetIds (processedWorksheet sampleGen sampleReply))
   \<and> worksheetIds (processedWorksheet sampleGen sampleReply) = [''u'', ''uu'', ''uuu'', ''uuuu'']
   \<and> optionIds (processedWorksheet sampleGen sampleReply) = [''a'', ''B'', ''c'']
   \<and> worksheetFrom sampleReply (processedWorksheet sampleGen sampleReply)"
proof -
  have i: "inj sampleGen"
  proof (rule injI)
    fix x y assume "sampleGen x = sampleGen y"
    then have "length (sampleGen x) = length (sampleGen y)" by simp
    then show "x = y" by (simp add: sampleGen_def)
  qed
  have n: "\<forall>k. sampleGen k \<noteq> []" by (simp add: sampleGen_def)
  have a: "worksheetIds (processedWorksheet sampleGen sampleReply) = [''u'', ''uu'', ''uuu'', ''uuuu'']"
    by code_simp
  have b: "optionIds (processedWorksheet sampleGen sampleReply) = [''a'', ''B'', ''c'']"
    by code_simp
  from ingestion_backfills_ids[OF i n, of sampleReply] i n a b show ?thesis by blast
qed

section \<open>Submitting through the interface\<close>

lemma evaluate_choice:
  "q_type q = MultipleChoice \<or> q_type q = Matching \<Longrightarrow> fst (evaluate q sel txt) = Single sel"
  by (auto simp: evaluate_def)

lemma evaluate_text_answer:
  "q_type q = Text \<or> q_type q = FillBlank \<Longrightarrow> fst (evaluate q sel txt) = Single (trim txt)"
  by (auto simp: evaluate_def Let_def)

text \<open>
  Claim C9. A click on Submit runs \<open>handleSubmit\<close> only when the button is rendered and
  enabled; then a multiple-choice or matching question has a non-empty selected option,
  a text or fill-in-the-blank question has a submission whose trimmed text is not
  empty, and the answer that is evaluated and stored is not the empty string. While the
  button is disabled, no evaluation takes place.
\<close>

theorem submit_requires_answer:
  "(submitDisabled question ui \<longrightarrow> clickSubmit question ui st = None)
   \<and> (\<forall>r. clickSubmit question ui st = Some r \<longrightarrow>
         r = handleSubmit question ui st
       \<and> snd r = updateQuestionAnswer (q_id question)
                   (fst (evaluate question (selectedOption ui) (textAnswer ui)))
                   (snd (evaluate question (selectedOption ui) (textAnswer ui))) st
       \<and> fst (evaluate question (selectedOption ui) (textAnswer ui)) \<noteq> Single []
       \<and> (q_type question = MultipleChoice \<or> q_type question = Matching
            \<longrightarrow> selectedOption ui \<noteq> [])
       \<and> (q_type question = Text \<or> q_type question = FillBlank
            \<longrightarrow> trim (textAnswer ui) \<noteq> []))"
proof -
  have a: "submitDisabled question ui \<longrightarrow> clickSubmit question ui st = None"
    by (simp add: clickSubmit_def)
  have b: "r = handleSubmit question ui st
       \<and> snd r = updateQuestionAnswer (q_id question)
                   (fst (evaluate question (selectedOption ui) (textAnswer ui)))
                   (snd (evaluate question (selectedOption ui) (textAnswer ui))) st
       \<and> fst (evaluate question (selectedOption ui) (textAnswer ui)) \<noteq> Single []
       \<and> (q_type question = MultipleChoice \<or> q_type question = Matching
            \<longrightarrow> selectedOption ui \<noteq> [])
       \<and> (q_type question = Text \<or> q_type question = FillBlank
            \<longrightarrow> trim (textAnswer ui) \<noteq> [])"
    if c: "clickSubmit question ui st = Some r" for r
  proof -
    from c have en: "\<not> submitDisabled question ui" and r: "r = handleSubmit question ui st"
      by (auto simp: clickSubmit_def split: if_splits)
    have s: "snd r = updateQuestionAnswer (q_id question)
                   (fst (evaluate question (selectedOption ui) (textAnswer ui)))
                   (snd (evaluate question (selectedOption ui) (textAnswer ui))) st"
      by (simp add: r handleSubmit_def split: prod.splits)
    show ?thesis
    proof (cases "q_type question = MultipleChoice \<or> q_type question = Matching")
      case True
      with en have "selectedOption ui \<noteq> []" by (simp add: submitDisabled_def)
      with True r s evaluate_choice[OF True] show ?thesis by auto
    next
      case False
      then have t: "q_type question = Text \<or> q_type question = FillBlank"
        by (cases "q_type question") simp_all
      from False en have "trim (textAnswer ui) \<noteq> []" by (simp add: submitDisabled_def)
      with False r s evaluate_text_answer[OF t] show ?thesis by auto
    qed
  qed
  from a b show ?thesis by blast
qed

theorem submit_requires_answer_witness:
  "submitDisabled firstQuestion initialQuestionState
   \<and> clickSubmit firstQuestion initialQuestionState demoStore = None
   \<and> clickSubmit firstQuestion selectedB demoStore = Some (handleSubmit firstQuestion selectedB demoStore)
   \<and> fst (evaluate firstQuestion (selectedOption selectedB) (textAnswer selectedB)) \<noteq> Single []
   \<and> getCompletedQuestionsCount (snd (handleSubmit firstQuestion selectedB demoStore)) = 1"
proof -
  have d: "submitDisabled firstQuestion initialQuestionState" by code_simp
  have e: "clickSubmit firstQuestion selectedB demoStore = Some (handleSubmit firstQuestion selectedB demoStore)"
    by code_simp
  have n: "getCompletedQuestionsCount (snd (handleSubmit firstQuestion selectedB demoStore)) = 1"
    by code_simp
  from submit_requires_answer[of firstQuestion initialQuestionState demoStore] d
  have 1: "clickSubmit firstQuestion initialQuestionState demoStore = None" by blast
  from submit_requires_answer[of firstQuestion selectedB demoStore] e
  have 2: "fst (evaluate firstQuestion (selectedOption selectedB) (textAnswer selectedB)) \<noteq> Single []"
    by blast
  from d 1 e 2 n show ?thesis by blast
qed

section \<open>Uploading\<close>

lemma clearStorage_empty: "clearStorage st = emptyStorage"
  by (simp add: clearStorage_def emptyStorage_def)

text \<open>
  Claim C10. Without a selected file the upload handler leaves the store as it is. With
  a file it clears the store first: the outcome depends on the remote call only through
  what the call returns on the cleared store. When the ingestion fails, the store
  afterwards is the empty one: no worksheet, index 0, no student, not completed; the
  state from before the upload is not restored.
\<close>

theorem upload_clears_before_ingestion:
  "up_storage (uploadHandleSubmit None p st) = st
   \<and> (\<forall>f p'. p' f (clearStorage st) = p f (clearStorage st) \<longrightarrow>
          uploadHandleSubmit (Some f) p' st = uploadHandleSubmit (Some f) p st)
   \<and> (\<forall>f. ingestionFailed (p f (clearStorage st)) \<longrightarrow>
          up_storage (uploadHandleSubmit (Some f) p st) = emptyStorage
        \<and> getWorksheet (up_storage (uploadHandleSubmit (Some f) p st)) = None
        \<and> getCurrentQuestionIndex (up_storage (uploadHandleSubmit (Some f) p st)) = 0
        \<and> getStudentInfo (up_storage (uploadHandleSubmit (Some f) p st)) = None
        \<and> \<not> isCompleted (up_storage (uploadHandleSubmit (Some f) p st)))"
proof -
  have a: "up_storage (uploadHandleSubmit None p st) = st"
    by (simp add: uploadHandleSubmit_def)
  have b: "\<forall>f p'. p' f (clearStorage st) = p f (clearStorage st) \<longrightarrow>
          uploadHandleSubmit (Some f) p' st = uploadHandleSubmit (Some f) p st"
  proof (intro allI impI)
    fix f p' assume "p' f (clearStorage st) = p f (clearStorage st)"
    then show "uploadHandleSubmit (Some f) p' st = uploadHandleSubmit (Some f) p st"
      unfolding uploadHandleSubmit_def Let_def by simp
  qed
  have e: "getWorksheet emptyStorage = None \<and> getCurrentQuestionIndex emptyStorage = 0
      \<and> getStudentInfo emptyStorage = None \<and> \<not> isCompleted emptyStorage"
    by (simp add: emptyStorage_def getWorksheet_def getCurrentQuestionIndex_def
        getStudentInfo_def isCompleted_def)
  have c: "up_storage (uploadHandleSubmit (Some f) p st) = emptyStorage"
    if "ingestionFailed (p f (clearStorage st))" for f
    using that
    by (auto simp: uploadHandleSubmit_def Let_def ingestionFailed_def clearStorage_empty
        split: IngestOutcome.splits option.splits)
  have d: "\<forall>f. ingestionFailed (p f (clearStorage st)) \<longrightarrow>
          up_storage (uploadHandleSubmit (Some f) p st) = emptyStorage
        \<and> getWorksheet (up_storage (uploadHandleSubmit (Some f) p st)) = None
        \<and> getCurrentQuestionIndex (up_storage (uploadHandleSubmit (Some f) p st)) = 0
        \<and> getStudentInfo (up_storage (uploadHandleSubmit (Some f) p st)) = None
        \<and> \<not> isCompleted (up_storage (uploadHandleSubmit (Some f) p st))"
    using c e by simp
  show ?thesis by (intro conjI a b d)
qed

theorem upload_clears_before_ingestion_witness:
  "getWorksheet sessionInProgress = Some createSampleWorksheet
   \<and> getCurrentQuestionIndex sessionInProgress = 3
   \<and> isCompleted sessionInProgress
   \<and> ingestionFailed (Threw)
   \<and> getWorksheet (up_storage (uploadHandleSubmit (Some pngFile) (\<lambda>f s. Threw) sessionInProgress)) = None
   \<and> getCurrentQuestionIndex (up_storage (uploadHandleSubmit (Some pngFile) (\<lambda>f s. Threw) sessionInProgress)) = 0
   \<and> getStudentInfo (up_storage (uploadHandleSubmit (Some pngFile) (\<lambda>f s. Threw) sessionInProgress)) = None
   \<and> up_storage (uploadHandleSubmit None (\<lambda>f s. Threw) sessionInProgress) = sessionInProgress"
proof -
  have 1: "getWorksheet sessionInProgress = Some createSampleWorksheet" by code_simp
  have 2: "getCurrentQuestionIndex sessionInProgress = 3" by code_simp
  have 3: "isCompleted sessionInProgress" by code_simp
  have 4: "ingestionFailed ((\<lambda>f s. Threw) pngFile (clearStorage sessionInProgress))"
    by (simp add: ingestionFailed_def)
  have 5: "ingestionFailed Threw" by (simp add: ingestionFailed_def)
  note t = upload_clears_before_ingestion[of "\<lambda>f s. Threw" sessionInProgress]
  from t have 6: "up_storage (uploadHandleSubmit None (\<lambda>f s. Threw) sessionInProgress) = sessionInProgress"
    by (rule conjunct1)
  from t have "\<forall>f. ingestionFailed ((\<lambda>f s. Threw) f (clearStorage sessionInProgress)) \<longrightarrow>
          up_storage (uploadHandleSubmit (Some f) (\<lambda>f s. Threw) sessionInProgress) = emptyStorage
        \<and> getWorksheet (up_storage (uploadHandleSubmit (Some f) (\<lambda>f s. Threw) sessionInProgress)) = None
        \<and> getCurrentQuestionIndex (up_storage (uploadHandleSubmit (Some f) (\<lambda>f s. Threw) sessionInProgress)) = 0
        \<and> getStudentInfo (up_storage (uploadHandleSubmit (Some f) (\<lambda>f s. Threw) sessionInProgress)) = None
        \<and> \<not> isCompleted (up_storage (uploadHandleSubmit (Some f) (\<lambda>f s. Threw) sessionInProgress))"
    by (rule conjunct2[THEN conjunct2])
  with 4 have 7: "getWorksheet (up_storage (uploadHandleSubmit (Some pngFile) (\<lambda>f s. Threw) sessionInProgress)) = None
        \<and> getCurrentQuestionIndex (up_storage (uploadHandleSubmit (Some pngFile) (\<lambda>f s. Threw) sessionInProgress)) = 0
        \<and> getStudentInfo (up_storage (uploadHandleSubmit (Some pngFile) (\<lambda>f s. Threw) sessionInProgress)) = None"
    by blast
  from 1 2 3 5 6 7 show ?thesis by (intro conjI) simp_all
qed

section \<open>Threshold of the Finish button\<close>


lemma foldl_count:
  "foldl (\<lambda>total s. total + f s) (a::nat) xs = a + sum_list (map f xs)"
  by (induction xs arbitrary: a) simp_all

lemma getTotalQuestionsCount_length:
  "getTotalQuestionsCount st = length (getAllQuestions st)"
  by (simp add: getTotalQuestionsCount_def getAllQuestions_def flatQuestions_def foldl_count
      length_concat comp_def split: option.splits)








section \<open>The score\<close>

declare bitLength.simps [simp del]

lemma bitLength_bounds:
  "0 < n \<Longrightarrow> 2 ^ (bitLength n - 1) \<le> n \<and> n < 2 ^ bitLength n"
proof (induction n rule: bitLength.induct)
  case (1 n)
  show ?case
  proof (cases "n div 2 = 0")
    case True
    with "1.prems" have n: "n = Suc 0" by (simp add: div_eq_0_iff)
    have "bitLength (Suc 0) = Suc 0"
      by (simp add: bitLength.simps[of "Suc 0"] bitLength.simps[of 0])
    with n show ?thesis by simp
  next
    case False
    then have p: "0 < n div 2" by simp
    from "1.IH"[OF _ p] "1.prems"
    have ih: "2 ^ (bitLength (n div 2) - 1) \<le> n div 2" "n div 2 < 2 ^ bitLength (n div 2)" by simp_all
    have b: "bitLength n = Suc (bitLength (n div 2))" using "1.prems" by (simp add: bitLength.simps[of n])
    have pos: "0 < bitLength (n div 2)" using p by (simp add: bitLength.simps[of "n div 2"])
    have "2 ^ (bitLength n - 1) = 2 * 2 ^ (bitLength (n div 2) - 1)"
      using b pos by (cases "bitLength (n div 2)") simp_all
    also have "\<dots> \<le> 2 * (n div 2)" using ih(1) by simp
    also have "\<dots> \<le> n" by simp
    finally have lo: "2 ^ (bitLength n - 1) \<le> n" .
    have "n < 2 * (n div 2) + 2" by presburger
    also have "\<dots> \<le> 2 * 2 ^ bitLength (n div 2)" using ih(2) by simp
    finally have "n < 2 ^ bitLength n" using b by simp
    with lo show ?thesis by simp
  qed
qed

lemma exponentOf_le:
  assumes "0 < x"
  shows "2 powi (exponentOf x) \<le> x"
proof -
  obtain a b where q: "quotient_of x = (a, b)" by (cases "quotient_of x")
  then have b: "0 < b" by (rule quotient_of_denom_pos)
  from q have x: "x = of_int a / of_int b" by (rule quotient_of_div)
  with assms b have a: "0 < a" by (simp add: zero_less_divide_iff)
  define na nb where "na = nat a" and "nb = nat b"
  have ia: "a = int na" and ib: "b = int nb" and pa: "0 < na" and pb: "0 < nb"
    using a b by (simp_all add: na_def nb_def)
  define la lb where "la = bitLength na" and "lb = bitLength nb"
  have xn: "x = rat_of_nat na / rat_of_nat nb" using x ia ib by simp
  show ?thesis
  proof (cases "2 powi (int la - int lb) \<le> x")
    case True
    with q show ?thesis by (simp add: exponentOf_def la_def lb_def na_def nb_def)
  next
    case False
    with q have e: "exponentOf x = int la - int lb - 1"
      by (simp add: exponentOf_def la_def lb_def na_def nb_def)
    from bitLength_bounds[OF pa] have "2 ^ (la - 1) \<le> na" by (simp add: la_def)
    then have "rat_of_nat (2 ^ (la - 1)) \<le> rat_of_nat na" by (simp only: of_nat_le_iff)
    then have la': "(2::rat) ^ (la - 1) \<le> rat_of_nat na" by simp
    from bitLength_bounds[OF pb] have "nb \<le> 2 ^ lb" by (simp add: lb_def)
    then have "rat_of_nat nb \<le> rat_of_nat (2 ^ lb)" by (simp only: of_nat_le_iff)
    then have lb': "rat_of_nat nb \<le> (2::rat) ^ lb" by simp
    have "0 < la" using pa by (simp add: la_def bitLength.simps[of na])
    then obtain k where k: "la = Suc k" by (cases la) simp_all
    have "(2::rat) powi (int la - int lb - 1) = 2 powi (int k - int lb)" by (simp add: k)
    also have "\<dots> = 2 powi (int k) / 2 powi (int lb)" by (rule power_int_diff) simp
    also have "\<dots> = 2 ^ (la - 1) / 2 ^ lb" by (simp add: k)
    also have "\<dots> \<le> rat_of_nat na / rat_of_nat nb"
      using la' lb' pb by (intro frac_le) simp_all
    finally show ?thesis using e xn by simp
  qed
qed

lemma exponentOf_upper:
  assumes "0 < x"
  shows "x < 2 powi (exponentOf x + 1)"
proof -
  obtain a b where q: "quotient_of x = (a, b)" by (cases "quotient_of x")
  then have b: "0 < b" by (rule quotient_of_denom_pos)
  from q have x: "x = of_int a / of_int b" by (rule quotient_of_div)
  with assms b have a: "0 < a" by (simp add: zero_less_divide_iff)
  define na nb where "na = nat a" and "nb = nat b"
  have ia: "a = int na" and ib: "b = int nb" and pa: "0 < na" and pb: "0 < nb"
    using a b by (simp_all add: na_def nb_def)
  define la lb where "la = bitLength na" and "lb = bitLength nb"
  have xn: "x = rat_of_nat na / rat_of_nat nb" using x ia ib by simp
  show ?thesis
  proof (cases "2 powi (int la - int lb) \<le> x")
    case False
    with q have e: "exponentOf x = int la - int lb - 1"
      by (simp add: exponentOf_def la_def lb_def na_def nb_def)
    from False show ?thesis by (simp add: e)
  next
    case True
    with q have e: "exponentOf x = int la - int lb"
      by (simp add: exponentOf_def la_def lb_def na_def nb_def)
    from bitLength_bounds[OF pa] have "na < 2 ^ la" by (simp add: la_def)
    then have "rat_of_nat na < rat_of_nat (2 ^ la)" by (simp only: of_nat_less_iff)
    then have la': "rat_of_nat na < (2::rat) ^ la" by simp
    from bitLength_bounds[OF pb] have "2 ^ (lb - 1) \<le> nb" by (simp add: lb_def)
    then have "rat_of_nat (2 ^ (lb - 1)) \<le> rat_of_nat nb" by (simp only: of_nat_le_iff)
    then have lb': "(2::rat) ^ (lb - 1) \<le> rat_of_nat nb" by simp
    have "0 < lb" using pb by (simp add: lb_def bitLength.simps[of nb])
    then obtain k where k: "lb = Suc k" by (cases lb) simp_all
    have "rat_of_nat na / rat_of_nat nb < 2 ^ la / 2 ^ (lb - 1)"
      using la' lb' pa by (intro frac_less) simp_all
    also have "\<dots> = 2 powi (int la) / 2 powi (int k)" by (simp add: k)
    also have "\<dots> = 2 powi (int la - int k)" by (rule power_int_diff[symmetric]) simp
    also have "\<dots> = 2 powi (int la - int lb + 1)" by (simp add: k)
    finally show ?thesis using e xn by simp
  qed
qed

lemma exponentOf_unique:
  assumes "0 < x" and lo: "2 powi e \<le> x" and hi: "x < 2 powi (e + 1)"
  shows "exponentOf x = e"
proof -
  let ?e = "exponentOf x"
  have 1: "(2::rat) powi ?e < 2 powi (e + 1)"
    using exponentOf_le[OF assms(1)] hi by simp
  have 2: "(2::rat) powi e < 2 powi (?e + 1)"
    using exponentOf_upper[OF assms(1)] lo by simp
  have "?e < e + 1"
  proof (rule ccontr)
    assume "\<not> ?e < e + 1"
    then have "e + 1 \<le> ?e" by simp
    then have "(2::rat) powi (e + 1) \<le> 2 powi ?e" by (rule power_int_increasing) simp
    with 1 show False by simp
  qed
  moreover have "e < ?e + 1"
  proof (rule ccontr)
    assume "\<not> e < ?e + 1"
    then have "?e + 1 \<le> e" by simp
    then have "(2::rat) powi (?e + 1) \<le> 2 powi e" by (rule power_int_increasing) simp
    with 2 show False by simp
  qed
  ultimately show ?thesis by simp
qed

lemma toDouble_eq:
  assumes "0 < x" and "2 powi e \<le> x" and "x < 2 powi (e + 1)"
  shows "toDouble x = of_int (roundHalfEven (x / 2 powi (e - 52))) * 2 powi (e - 52)"
  using assms(1) exponentOf_unique[OF assms] by (simp add: toDouble_def Let_def)

lemma roundHalfEven_close: "\<bar>of_int (roundHalfEven m) - m\<bar> \<le> 1 / 2"
proof -
  have "of_int \<lfloor>m\<rfloor> \<le> m" "m < of_int \<lfloor>m\<rfloor> + 1" by linarith+
  then show ?thesis by (auto simp: roundHalfEven_def Let_def abs_le_iff)
qed

lemma roundHalfEven_nonneg: "0 \<le> m \<Longrightarrow> 0 \<le> roundHalfEven m"
  by (auto simp: roundHalfEven_def Let_def)

lemma toDouble_nonneg: "0 \<le> x \<Longrightarrow> 0 \<le> toDouble x"
  by (auto simp: toDouble_def Let_def roundHalfEven_nonneg intro!: mult_nonneg_nonneg)

lemma toDouble_upper:
  assumes "0 < x"
  shows "toDouble x \<le> x + x / 2 ^ 53"
proof -
  let ?u = "(2::rat) powi (exponentOf x - 52)"
  have u: "0 < ?u" by simp
  have td: "toDouble x = of_int (roundHalfEven (x / ?u)) * ?u"
    using assms by (simp add: toDouble_def Let_def)
  from roundHalfEven_close[of "x / ?u"] have "of_int (roundHalfEven (x / ?u)) \<le> x / ?u + 1 / 2"
    by linarith
  then have "of_int (roundHalfEven (x / ?u)) * ?u \<le> (x / ?u + 1 / 2) * ?u"
    using u by (simp only: mult_le_cancel_right_pos)
  also have "\<dots> = x + ?u / 2" using u by (simp add: field_simps)
  also have "?u / 2 = 2 powi (exponentOf x) / 2 ^ 53"
    by (simp add: power_int_diff)
  also have "\<dots> \<le> x / 2 ^ 53"
    using exponentOf_le[OF assms] by (simp add: divide_right_mono)
  finally show ?thesis using td by simp
qed

lemma percent_double_bound:
  assumes "c \<le> t" and "0 < (t::nat)"
  shows "0 \<le> \<lfloor>toDouble (toDouble (rat_of_nat c / rat_of_nat t) * 100) + 1 / 2\<rfloor>
       \<and> \<lfloor>toDouble (toDouble (rat_of_nat c / rat_of_nat t) * 100) + 1 / 2\<rfloor> \<le> 100"
proof -
  let ?x = "rat_of_nat c / rat_of_nat t"
  let ?q = "toDouble ?x"
  let ?y = "toDouble (?q * 100)"
  have x0: "0 \<le> ?x" by simp
  have x1: "?x \<le> 1" using assms by (simp add: divide_le_eq_1)
  have q0: "0 \<le> ?q" using x0 by (rule toDouble_nonneg)
  have y0: "0 \<le> ?y" using q0 by (intro toDouble_nonneg) simp
  have q1: "?q \<le> 1 + 1 / 2 ^ 53"
  proof (cases "?x = 0")
    case True
    then show ?thesis by (simp add: toDouble_def)
  next
    case False
    with x0 have "0 < ?x" by simp
    from toDouble_upper[OF this] have "?q \<le> ?x + ?x / 2 ^ 53" .
    also have "\<dots> \<le> 1 + 1 / 2 ^ 53" using x1 by (intro add_mono divide_right_mono) simp_all
    finally show ?thesis .
  qed
  have y1: "?y \<le> 100 + 1 / 4"
  proof (cases "?q = 0")
    case True
    then show ?thesis by (simp add: toDouble_def)
  next
    case False
    with q0 have "0 < ?q * 100" by simp
    from toDouble_upper[OF this] have "?y \<le> ?q * 100 + ?q * 100 / 2 ^ 53" .
    also have "\<dots> = ?q * (100 + 100 / 2 ^ 53)" by (simp add: algebra_simps)
    also have "\<dots> \<le> (1 + 1 / 2 ^ 53) * (100 + 100 / 2 ^ 53)"
      using q1 by (intro mult_right_mono) simp_all
    also have "\<dots> \<le> 100 + 1 / 4" by simp
    finally show ?thesis .
  qed
  have "0 \<le> \<lfloor>?y + 1 / 2\<rfloor>" using y0 by simp
  moreover have "\<lfloor>?y + 1 / 2\<rfloor> \<le> 100"
  proof -
    have "?y + 1 / 2 < 101" using y1 by simp
    then have "\<lfloor>?y + 1 / 2\<rfloor> < 101" by (simp add: floor_less_iff)
    then show ?thesis by simp
  qed
  ultimately show ?thesis by blast
qed


lemma roundHalfEven_eq:
  assumes "\<bar>rat_of_int n - m\<bar> < 1 / 2"
  shows "roundHalfEven m = n"
proof -
  let ?f = "\<lfloor>m\<rfloor>"
  have f: "rat_of_int ?f \<le> m" "m < rat_of_int ?f + 1" by linarith+
  from assms have n: "rat_of_int n < m + 1 / 2" "m - 1 / 2 < rat_of_int n" by linarith+
  show ?thesis
  proof (cases "m - rat_of_int ?f < 1 / 2")
    case True
    have "rat_of_int n < rat_of_int ?f + 1" using n f True by linarith
    then have "rat_of_int n < rat_of_int (?f + 1)" by simp
    then have 1: "n < ?f + 1" by (simp only: of_int_less_iff)
    have "rat_of_int ?f - 1 < rat_of_int n" using n f True by linarith
    then have "rat_of_int (?f - 1) < rat_of_int n" by simp
    then have 2: "?f - 1 < n" by (simp only: of_int_less_iff)
    from 1 2 have "n = ?f" by simp
    with True show ?thesis by (simp add: roundHalfEven_def Let_def)
  next
    case False
    have "rat_of_int ?f < rat_of_int n" using n f False by linarith
    then have 1: "?f < n" by (simp only: of_int_less_iff)
    have "rat_of_int n < rat_of_int ?f + 2" using n f False by linarith
    then have "rat_of_int n < rat_of_int (?f + 2)" by simp
    then have 2: "n < ?f + 2" by (simp only: of_int_less_iff)
    from 1 2 have e: "n = ?f + 1" by simp
    have "m - rat_of_int ?f \<noteq> 1 / 2"
    proof
      assume h: "m - rat_of_int ?f = 1 / 2"
      then have "rat_of_int n - m = 1 / 2" using e by simp
      with assms show False by linarith
    qed
    with False have "1 / 2 < m - rat_of_int ?f" by simp
    with False e show ?thesis by (simp add: roundHalfEven_def Let_def)
  qed
qed

lemma correct_le_total: "correctAnswersOf w \<le> totalQuestionsOf w"
  unfolding correctAnswersOf_def totalQuestionsOf_def foldl_count
  by (simp add: sum_list_mono)

lemma percent_bounds:
  assumes "c \<le> t" and "0 < t"
  shows "\<exists>p. Math_round (js_times (js_div c t) 100) = Num (of_int p) \<and> 0 \<le> p \<and> p \<le> 100"
  using percent_double_bound[OF assms] assms(2)
  by (simp add: Math_round_def js_times_def js_div_def)

lemma percent_zero_total: "Math_round (js_times (js_div 0 0) 100) = NaN"
  by (simp add: Math_round_def js_times_def js_div_def)

lemma openResults_computes:
  assumes "isCompleted st" and "getWorksheet st \<noteq> None" and "getStudentInfo st \<noteq> None"
  shows "openResults st =
     ((mountResults st)\<lparr>correctCount := getCorrectAnswersCount st,
          resultsTotalCount := getTotalQuestionsCount st,
          scorePercentState := Math_round (js_times (js_div (getCorrectAnswersCount st)
              (getTotalQuestionsCount st)) 100)\<rparr>, None)"
  using assms by (simp add: openResults_def resultsEffect_def mountResults_def Let_def)

text \<open>
  Claim C2 fails as stated: for a worksheet without questions the quotient is \<open>0 / 0\<close>,
  which is \<open>NaN\<close>, and \<open>NaN\<close> is what \<open>scorePercent\<close> is; the score line of the report
  reads \<open>0/0 (NaN%)\<close>.
\<close>

theorem scorePercent_zero_questions_counterexample:
  "totalQuestionsOf emptyWorksheet = 0
   \<and> scorePercent emptyWorksheet = NaN
   \<and> scorePercent emptyWorksheet \<noteq> Num 0
   \<and> scoreElement (generatePDF emptyWorksheet sampleStudent) = ''<strong>Score:</strong> 0/0 (NaN%)''"
  by code_simp

text \<open>
  Claim C2, amended. The score computation has no special case for a worksheet without
  questions: there \<open>scorePercent\<close> of the report is \<open>NaN\<close>, and no error is raised; for
  a worksheet with at least one question it is a whole number from 0 to 100. The
  Results page computes the same way whenever its effect gets as far as computing,
  that is when the session is completed and worksheet and student are there; when it
  returns early, its percent stays at the initial 0.
\<close>

theorem scorePercent_cases:
  "(totalQuestionsOf w = 0 \<longrightarrow> scorePercent w = NaN)
   \<and> (0 < totalQuestionsOf w \<longrightarrow> (\<exists>p. scorePercent w = Num (of_int p) \<and> 0 \<le> p \<and> p \<le> 100))
   \<and> (isCompleted st \<and> getWorksheet st \<noteq> None \<and> getStudentInfo st \<noteq> None
         \<and> getTotalQuestionsCount st = 0
        \<longrightarrow> scorePercentState (fst (openResults st)) = NaN \<and> snd (openResults st) = None)
   \<and> (isCompleted st \<and> getWorksheet st \<noteq> None \<and> getStudentInfo st \<noteq> None
         \<and> 0 < getTotalQuestionsCount st
        \<longrightarrow> (\<exists>p. scorePercentState (fst (openResults st)) = Num (of_int p) \<and> 0 \<le> p \<and> p \<le> 100)
          \<and> snd (openResults st) = None)
   \<and> (\<not> isCompleted st \<or> getWorksheet st = None \<or> getStudentInfo st = None
        \<longrightarrow> scorePercentState (fst (openResults st)) = Num 0 \<and> snd (openResults st) \<noteq> None)"
proof -
  have a: "totalQuestionsOf w = 0 \<longrightarrow> scorePercent w = NaN"
  proof
    assume z: "totalQuestionsOf w = 0"
    with correct_le_total[of w] have "correctAnswersOf w = 0" by simp
    with z show "scorePercent w = NaN" by (simp add: scorePercent_def percent_zero_total)
  qed
  have b: "0 < totalQuestionsOf w \<longrightarrow> (\<exists>p. scorePercent w = Num (of_int p) \<and> 0 \<le> p \<and> p \<le> 100)"
    unfolding scorePercent_def using percent_bounds[OF correct_le_total] by blast
  have le: "getCorrectAnswersCount st \<le> getTotalQuestionsCount st"
    by (simp add: getCorrectAnswersCount_def getTotalQuestionsCount_length)
  have c: "isCompleted st \<and> getWorksheet st \<noteq> None \<and> getStudentInfo st \<noteq> None
         \<and> getTotalQuestionsCount st = 0
        \<longrightarrow> scorePercentState (fst (openResults st)) = NaN \<and> snd (openResults st) = None"
  proof
    assume h: "isCompleted st \<and> getWorksheet st \<noteq> None \<and> getStudentInfo st \<noteq> None
         \<and> getTotalQuestionsCount st = 0"
    with le have z: "getCorrectAnswersCount st = 0" by simp
    from h have o: "openResults st =
     ((mountResults st)\<lparr>correctCount := getCorrectAnswersCount st,
          resultsTotalCount := getTotalQuestionsCount st,
          scorePercentState := Math_round (js_times (js_div (getCorrectAnswersCount st)
              (getTotalQuestionsCount st)) 100)\<rparr>, None)"
      by (intro openResults_computes) simp_all
    from h z show "scorePercentState (fst (openResults st)) = NaN \<and> snd (openResults st) = None"
      by (simp add: o percent_zero_total)
  qed
  have d: "isCompleted st \<and> getWorksheet st \<noteq> None \<and> getStudentInfo st \<noteq> None
         \<and> 0 < getTotalQuestionsCount st
        \<longrightarrow> (\<exists>p. scorePercentState (fst (openResults st)) = Num (of_int p) \<and> 0 \<le> p \<and> p \<le> 100)
          \<and> snd (openResults st) = None"
  proof
    assume h: "isCompleted st \<and> getWorksheet st \<noteq> None \<and> getStudentInfo st \<noteq> None
         \<and> 0 < getTotalQuestionsCount st"
    then have o: "openResults st =
     ((mountResults st)\<lparr>correctCount := getCorrectAnswersCount st,
          resultsTotalCount := getTotalQuestionsCount st,
          scorePercentState := Math_round (js_times (js_div (getCorrectAnswersCount st)
              (getTotalQuestionsCount st)) 100)\<rparr>, None)"
      by (intro openResults_computes) simp_all
    from h have "0 < getTotalQuestionsCount st" by simp
    from percent_bounds[OF le this] obtain p
      where "Math_round (js_times (js_div (getCorrectAnswersCount st) (getTotalQuestionsCount st)) 100)
               = Num (of_int p)" "0 \<le> p" "p \<le> 100" by blast
    then show "(\<exists>p. scorePercentState (fst (openResults st)) = Num (of_int p) \<and> 0 \<le> p \<and> p \<le> 100)
          \<and> snd (openResults st) = None"
      by (simp add: o)
  qed
  have e: "\<not> isCompleted st \<or> getWorksheet st = None \<or> getStudentInfo st = None
        \<longrightarrow> scorePercentState (fst (openResults st)) = Num 0 \<and> snd (openResults st) \<noteq> None"
    by (auto simp: openResults_def resultsEffect_def mountResults_def)
  show ?thesis by (intro conjI a b c d e)
qed

theorem scorePercent_cases_witness:
  "totalQuestionsOf emptyWorksheet = 0 \<and> scorePercent emptyWorksheet = NaN
   \<and> totalQuestionsOf twentyThreeOfForty = 40 \<and> correctAnswersOf twentyThreeOfForty = 23
   \<and> scorePercent twentyThreeOfForty = Num 57
   \<and> isCompleted emptyCompleted \<and> getTotalQuestionsCount emptyCompleted = 0
   \<and> scorePercentState (fst (openResults emptyCompleted)) = NaN
   \<and> isCompleted sessionInProgress \<and> getTotalQuestionsCount sessionInProgress = 10
   \<and> (\<exists>p. scorePercentState (fst (openResults sessionInProgress)) = Num (of_int p)
         \<and> 0 \<le> p \<and> p \<le> 100)
   \<and> getWorksheet emptyStorage = None
   \<and> scorePercentState (fst (openResults emptyStorage)) = Num 0"
proof -
  have 1: "totalQuestionsOf emptyWorksheet = 0" by code_simp
  have 2: "totalQuestionsOf twentyThreeOfForty = 40" by code_simp
  have 3: "correctAnswersOf twentyThreeOfForty = 23" by code_simp
  have q: "toDouble (23 / 40) = 2589569785738035 / 4503599627370496"
  proof -
    have "toDouble (23 / 40)
        = of_int (roundHalfEven (23 / 40 / 2 powi (- 1 - 52))) * 2 powi (- 1 - 52)"
      by (rule toDouble_eq) simp_all
    also have "roundHalfEven (23 / 40 / 2 powi (- 1 - 52)) = 5179139571476070"
      by (rule roundHalfEven_eq) simp
    finally show ?thesis by simp
  qed
  have y: "toDouble (64739244643450875 / 1125899906842624)
             = 8092405580431359 / 140737488355328"
  proof -
    have "toDouble (64739244643450875 / 1125899906842624)
        = of_int (roundHalfEven (64739244643450875 / 1125899906842624 / 2 powi (5 - 52)))
            * 2 powi (5 - 52)"
      by (rule toDouble_eq) simp_all
    also have "roundHalfEven (64739244643450875 / 1125899906842624 / 2 powi (5 - 52))
        = 8092405580431359"
      by (rule roundHalfEven_eq) simp
    finally show ?thesis by simp
  qed
  have 4: "scorePercent twentyThreeOfForty = Num 57"
    by (simp add: scorePercent_def 2 3 Math_round_def js_times_def js_div_def q y floor_eq_iff)
  have 5: "isCompleted emptyCompleted" by code_simp
  have 6: "getWorksheet emptyCompleted \<noteq> None" by code_simp
  have 7: "getStudentInfo emptyCompleted \<noteq> None" by code_simp
  have 8: "getTotalQuestionsCount emptyCompleted = 0" by code_simp
  have 9: "isCompleted sessionInProgress" by code_simp
  have 10: "getWorksheet sessionInProgress \<noteq> None" by code_simp
  have 11: "getStudentInfo sessionInProgress \<noteq> None" by code_simp
  have 12: "getTotalQuestionsCount sessionInProgress = 10" by code_simp
  have 13: "getWorksheet emptyStorage = None" by code_simp
  note t1 = scorePercent_cases[of emptyWorksheet emptyCompleted]
  note t2 = scorePercent_cases[of twentyThreeOfForty sessionInProgress]
  note t3 = scorePercent_cases[of emptyWorksheet emptyStorage]
  from t1 1 have a: "scorePercent emptyWorksheet = NaN" by blast
  from t1 5 6 7 8 have b: "scorePercentState (fst (openResults emptyCompleted)) = NaN" by blast
  have p: "0 < getTotalQuestionsCount sessionInProgress" using 12 by simp
  from t2 9 10 11 p
  have c: "\<exists>p. scorePercentState (fst (openResults sessionInProgress)) = Num (of_int p)
         \<and> 0 \<le> p \<and> p \<le> 100" by blast
  from t3 13 have d: "scorePercentState (fst (openResults emptyStorage)) = Num 0" by blast
  show ?thesis by (intro conjI 1 a 2 3 4 5 8 b 9 12 c 13 d)
qed

section \<open>The report\<close>

lemma renderSection_nth:
  "i < length (questions s) \<Longrightarrow>
     questionElements (renderSection s) ! i = renderQuestion (questions s ! i) i"
  by (simp add: renderSection_def)

text \<open>
  Claim C3 fails as stated: a question that was never answered has no \<open>isCorrect\<close>,
  which is falsy, so the report shows the correct answer beneath it, as it does beneath
  a wrong answer.
\<close>

theorem report_unanswered_counterexample:
  "userAnswer sixthQuestion = None
   \<and> isCorrect sixthQuestion = None
   \<and> userAnswerHtml (renderQuestion sixthQuestion 0) = ''<p><strong>Your answer:</strong> Not answered</p>''
   \<and> correctAnswerElement (renderQuestion sixthQuestion 0) = Some ''<strong>Correct answer:</strong> Es''
   \<and> \<not> (correctAnswerElement (renderQuestion sixthQuestion 0) \<noteq> None
          \<longleftrightarrow> userAnswer sixthQuestion \<noteq> None \<and> isCorrect sixthQuestion = Some False)"
  by code_simp

text \<open>
  Claim C3, amended. In the report every question of every section has its element, in
  order. The element shows \<open>Not answered\<close> when \<open>userAnswer\<close> is missing or the empty
  string, and the answer otherwise (the members of an array joined by commas). The
  correct answer appears beneath the question exactly when the question is not marked
  correct, that is for a wrong answer and for a question without an answer, and it is
  the accepted string, or the accepted strings joined by a comma and a space.
\<close>

theorem report_shows_answers:
  "length (sectionElements (generatePDF w info)) = length (sections w)
   \<and> (\<forall>j < length (sections w).
         length (questionElements (sectionElements (generatePDF w info) ! j))
           = length (questions (sections w ! j))
       \<and> (\<forall>i < length (questions (sections w ! j)).
             questionElements (sectionElements (generatePDF w info) ! j) ! i
               = renderQuestion (questions (sections w ! j) ! i) i))
   \<and> (userAnswer q = None \<or> userAnswer q = Some (Single []) \<longrightarrow>
         userAnswerHtml (renderQuestion q i) = ''<p><strong>Your answer:</strong> Not answered</p>'')
   \<and> (\<forall>s. userAnswer q = Some (Single s) \<and> s \<noteq> [] \<longrightarrow>
         userAnswerHtml (renderQuestion q i) = ''<p><strong>Your answer:</strong> '' @ s @ ''</p>'')
   \<and> (\<forall>xs. userAnswer q = Some (Multi xs) \<longrightarrow>
         userAnswerHtml (renderQuestion q i)
           = ''<p><strong>Your answer:</strong> '' @ join '','' xs @ ''</p>'')
   \<and> (correctAnswerElement (renderQuestion q i) \<noteq> None \<longleftrightarrow> isCorrect q \<noteq> Some True)
   \<and> (\<forall>s. isCorrect q \<noteq> Some True \<and> correctAnswer q = Single s \<longrightarrow>
         correctAnswerElement (renderQuestion q i) = Some (''<strong>Correct answer:</strong> '' @ s))
   \<and> (\<forall>xs. isCorrect q \<noteq> Some True \<and> correctAnswer q = Multi xs \<longrightarrow>
         correctAnswerElement (renderQuestion q i)
           = Some (''<strong>Correct answer:</strong> '' @ join '', '' xs))"
proof -
  have 1: "length (sectionElements (generatePDF w info)) = length (sections w)"
    by (simp add: generatePDF_def)
  have 2: "\<forall>j < length (sections w).
         length (questionElements (sectionElements (generatePDF w info) ! j))
           = length (questions (sections w ! j))
       \<and> (\<forall>i < length (questions (sections w ! j)).
             questionElements (sectionElements (generatePDF w info) ! j) ! i
               = renderQuestion (questions (sections w ! j) ! i) i)"
    by (simp add: generatePDF_def renderSection_nth) (simp add: renderSection_def)
  have 3: "userAnswer q = None \<or> userAnswer q = Some (Single []) \<longrightarrow>
         userAnswerHtml (renderQuestion q i) = ''<p><strong>Your answer:</strong> Not answered</p>''"
    by (auto simp: renderQuestion_def userAnswerOrDefault_def)
  have 4: "\<forall>s. userAnswer q = Some (Single s) \<and> s \<noteq> [] \<longrightarrow>
         userAnswerHtml (renderQuestion q i) = ''<p><strong>Your answer:</strong> '' @ s @ ''</p>''"
    by (simp add: renderQuestion_def userAnswerOrDefault_def)
  have 5: "\<forall>xs. userAnswer q = Some (Multi xs) \<longrightarrow>
         userAnswerHtml (renderQuestion q i)
           = ''<p><strong>Your answer:</strong> '' @ join '','' xs @ ''</p>''"
    by (simp add: renderQuestion_def userAnswerOrDefault_def)
  have 6: "correctAnswerElement (renderQuestion q i) \<noteq> None \<longleftrightarrow> isCorrect q \<noteq> Some True"
    by (simp add: renderQuestion_def)
  have 7: "\<forall>s. isCorrect q \<noteq> Some True \<and> correctAnswer q = Single s \<longrightarrow>
         correctAnswerElement (renderQuestion q i) = Some (''<strong>Correct answer:</strong> '' @ s)"
    by (simp add: renderQuestion_def correctAnswerText_def)
  have 8: "\<forall>xs. isCorrect q \<noteq> Some True \<and> correctAnswer q = Multi xs \<longrightarrow>
         correctAnswerElement (renderQuestion q i)
           = Some (''<strong>Correct answer:</strong> '' @ join '', '' xs)"
    by (simp add: renderQuestion_def correctAnswerText_def)
  show ?thesis by (intro conjI 1 2 3 4 5 6 7 8)
qed

theorem report_shows_answers_witness:
  "isCorrect sixthAnsweredNo = Some False
   \<and> userAnswerHtml (renderQuestion sixthAnsweredNo 0) = ''<p><strong>Your answer:</strong> no</p>''
   \<and> correctAnswerElement (renderQuestion sixthAnsweredNo 0) = Some ''<strong>Correct answer:</strong> Es''
   \<and> isCorrect sixthAnsweredES = Some True
   \<and> correctAnswerElement (renderQuestion sixthAnsweredES 0) = None
   \<and> isCorrect es_question = None
   \<and> correctAnswerElement (renderQuestion es_question 0) = Some ''<strong>Correct answer:</strong> Es, es''"
proof -
  have a: "isCorrect sixthAnsweredNo = Some False" by code_simp
  have b: "userAnswer sixthAnsweredNo = Some (Single ''no'')" by code_simp
  have c: "correctAnswer sixthAnsweredNo = Single ''Es''" by code_simp
  have d: "isCorrect sixthAnsweredES = Some True" by code_simp
  have e: "isCorrect es_question = None" by code_simp
  have f: "correctAnswer es_question = Multi [''Es'', ''es'']" by code_simp
  have j: "join '', '' [''Es'', ''es''] = ''Es, es''" by simp
  note t1 = report_shows_answers[of createSampleWorksheet sampleStudent sixthAnsweredNo 0]
  note t2 = report_shows_answers[of createSampleWorksheet sampleStudent sixthAnsweredES 0]
  note t3 = report_shows_answers[of createSampleWorksheet sampleStudent es_question 0]
  from t1 b have 1: "userAnswerHtml (renderQuestion sixthAnsweredNo 0) = ''<p><strong>Your answer:</strong> no</p>''"
    by simp
  from t1 a c have 2: "correctAnswerElement (renderQuestion sixthAnsweredNo 0) = Some ''<strong>Correct answer:</strong> Es''"
    by simp
  from t2 d have 3: "correctAnswerElement (renderQuestion sixthAnsweredES 0) = None" by blast
  from t3 e f j have 4: "correctAnswerElement (renderQuestion es_question 0) = Some ''<strong>Correct answer:</strong> Es, es''"
    by simp
  show ?thesis by (intro conjI a 1 2 d 3 e 4)
qed

end
